theory Spec2Isabelle
  imports Complex_Main "HOL-Library.Multiset"
begin

section \<open>JavaScript numbers and values\<close>

text \<open>
  A JavaScript number is a finite value, one of the two infinities, or NaN. Finite
  values are modelled as reals: the rounding of the binary64 format and the sign of
  zero are not modelled (the one zero of the model behaves as \<open>+0\<close>).
\<close>

datatype jsnum = Fin real | PInf | NInf | NaN

text \<open>The values a cell read, a nodata slot or an optional field can hold.\<close>

datatype jsval = Undefined | Null | Num jsnum

fun js_neg :: "jsnum \<Rightarrow> jsnum" where
  "js_neg (Fin a) = Fin (- a)"
| "js_neg PInf = NInf"
| "js_neg NInf = PInf"
| "js_neg NaN = NaN"

fun js_add :: "jsnum \<Rightarrow> jsnum \<Rightarrow> jsnum" where
  "js_add NaN b = NaN"
| "js_add a NaN = NaN"
| "js_add (Fin a) (Fin b) = Fin (a + b)"
| "js_add PInf NInf = NaN"
| "js_add NInf PInf = NaN"
| "js_add PInf b = PInf"
| "js_add NInf b = NInf"
| "js_add (Fin a) b = b"

definition js_sub :: "jsnum \<Rightarrow> jsnum \<Rightarrow> jsnum" where
  "js_sub a b = js_add a (js_neg b)"

text \<open>The sign of a number that is not NaN; zero counts as positive (\<open>+0\<close>).\<close>

fun js_nonneg :: "jsnum \<Rightarrow> bool" where
  "js_nonneg (Fin a) = (0 \<le> a)"
| "js_nonneg PInf = True"
| "js_nonneg NInf = False"
| "js_nonneg NaN = False"

definition js_signed_inf :: "bool \<Rightarrow> jsnum" where
  "js_signed_inf pos = (if pos then PInf else NInf)"

fun js_mul :: "jsnum \<Rightarrow> jsnum \<Rightarrow> jsnum" where
  "js_mul NaN b = NaN"
| "js_mul a NaN = NaN"
| "js_mul (Fin a) (Fin b) = Fin (a * b)"
| "js_mul (Fin a) b = (if a = 0 then NaN else js_signed_inf ((0 < a) = js_nonneg b))"
| "js_mul a (Fin b) = (if b = 0 then NaN else js_signed_inf (js_nonneg a = (0 < b)))"
| "js_mul a b = js_signed_inf (js_nonneg a = js_nonneg b)"

fun js_div :: "jsnum \<Rightarrow> jsnum \<Rightarrow> jsnum" where
  "js_div NaN b = NaN"
| "js_div a NaN = NaN"
| "js_div (Fin a) (Fin b) =
     (if b \<noteq> 0 then Fin (a / b)
      else if a = 0 then NaN
      else js_signed_inf (0 < a))"
| "js_div (Fin a) b = Fin 0"
| "js_div a (Fin b) = js_signed_inf (js_nonneg a = (0 \<le> b))"
| "js_div a b = NaN"

fun js_lt :: "jsnum \<Rightarrow> jsnum \<Rightarrow> bool" where
  "js_lt NaN b = False"
| "js_lt a NaN = False"
| "js_lt (Fin a) (Fin b) = (a < b)"
| "js_lt a NInf = False"
| "js_lt PInf b = False"
| "js_lt NInf b = True"
| "js_lt a PInf = True"

definition js_gt :: "jsnum \<Rightarrow> jsnum \<Rightarrow> bool" where
  "js_gt a b = js_lt b a"

text \<open>\<open>a <= b\<close>: false when either side is NaN, otherwise \<open>a < b\<close> or \<open>a == b\<close>.\<close>

definition js_le :: "jsnum \<Rightarrow> jsnum \<Rightarrow> bool" where
  "js_le a b = (a \<noteq> NaN \<and> b \<noteq> NaN \<and> (js_lt a b \<or> a = b))"

text \<open>\<open>===\<close> on the values above: NaN equals nothing, not even itself.\<close>

fun strict_eq :: "jsval \<Rightarrow> jsval \<Rightarrow> bool" where
  "strict_eq (Num a) (Num b) = (a \<noteq> NaN \<and> a = b)"
| "strict_eq Undefined Undefined = True"
| "strict_eq Null Null = True"
| "strict_eq a b = False"

text \<open>Conversion to a number in arithmetic: \<open>undefined\<close> is NaN, \<open>null\<close> is 0.\<close>

fun to_number :: "jsval \<Rightarrow> jsnum" where
  "to_number Undefined = NaN"
| "to_number Null = Fin 0"
| "to_number (Num a) = a"

text \<open>Truthiness of a value: \<open>undefined\<close>, \<open>null\<close>, 0 and NaN are falsy.\<close>

fun truthy :: "jsval \<Rightarrow> bool" where
  "truthy Undefined = False"
| "truthy Null = False"
| "truthy (Num (Fin a)) = (a \<noteq> 0)"
| "truthy (Num NaN) = False"
| "truthy (Num a) = True"

definition opt_val :: "jsnum option \<Rightarrow> jsval" where
  "opt_val x = (case x of None \<Rightarrow> Undefined | Some a \<Rightarrow> Num a)"

text \<open>\<open>Math.round\<close> rounds a finite number to the nearest integer, halves upwards.\<close>

fun Math_round :: "jsnum \<Rightarrow> jsnum" where
  "Math_round (Fin a) = Fin (of_int \<lfloor>a + 1 / 2\<rfloor>)"
| "Math_round a = a"

text \<open>\<open>Math.max\<close> and \<open>Math.min\<close> of two numbers: NaN if either is NaN.\<close>

definition Math_max :: "jsnum \<Rightarrow> jsnum \<Rightarrow> jsnum" where
  "Math_max a b = (if a = NaN \<or> b = NaN then NaN else if js_lt a b then b else a)"

definition Math_min :: "jsnum \<Rightarrow> jsnum \<Rightarrow> jsnum" where
  "Math_min a b = (if a = NaN \<or> b = NaN then NaN else if js_lt b a then b else a)"

text \<open>
  Modelled from the spec: \<open>clamp\<close> and \<open>lerp\<close> of \<open>ol/math.js\<close>, which is not among
  the sources. The spec has grey levels "clamped" to 0-255 and a "linear RGB blend":
  \<open>clamp(value, min, max) = Math.min(Math.max(value, min), max)\<close> and
  \<open>lerp(a, b, x) = a + x * (b - a)\<close>.
\<close>

definition clamp :: "jsnum \<Rightarrow> jsnum \<Rightarrow> jsnum \<Rightarrow> jsnum" where
  "clamp v lo hi = Math_min (Math_max v lo) hi"

definition lerp :: "jsnum \<Rightarrow> jsnum \<Rightarrow> jsnum \<Rightarrow> jsnum" where
  "lerp a b x = js_add a (js_mul x (js_sub b a))"

text \<open>
  Reading \<open>xs[i]\<close>: an index outside the array reads \<open>undefined\<close>.
\<close>

definition js_index :: "jsnum list \<Rightarrow> nat \<Rightarrow> jsval" where
  "js_index xs i = (if i < length xs then Num (xs ! i) else Undefined)"

definition at_index :: "'a list \<Rightarrow> nat \<Rightarrow> 'a option" where
  "at_index xs i = (if i < length xs then Some (xs ! i) else None)"

section \<open>Bands and their statistics (\<open>ol/coverage/Band\<close>)\<close>

datatype MatrixType = UINT8 | INT8 | UINT16 | INT16 | UINT32 | INT32 | FLOAT32 | FLOAT64

type_synonym Extent = "real \<times> real \<times> real \<times> real"

text \<open>
  The statistics object: every field is \<open>undefined\<close> until \<open>calculateStatistics\<close>
  has run. \<open>count\<close> only ever holds a cell count.
\<close>

record CoverageStatistics =
  stat_min :: "jsnum option"
  stat_max :: "jsnum option"
  stat_sum :: "jsnum option"
  stat_count :: "nat option"
  stat_variance :: "jsnum option"

text \<open>
  A band. \<open>b_matrix\<close> holds the cells as \<open>getCoverageData()\<close> returns them (for a
  binary band, the elements of the typed array view); \<open>b_null\<close> is a number or \<open>null\<close>.
\<close>

record Band =
  b_type :: MatrixType
  b_null :: jsval
  b_extent :: Extent
  b_origin :: "real \<times> real"
  b_binary :: bool
  b_matrix :: "jsnum list"
  b_stride :: nat
  b_resolution :: "real \<times> real"
  b_statistics :: CoverageStatistics

text \<open>The first pass of \<open>calculateStatistics\<close>: \<open>(min, max, sum, count)\<close>.\<close>

fun stats_pass1 ::
  "jsval \<Rightarrow> jsnum \<times> jsnum \<times> jsnum \<times> nat \<Rightarrow> jsnum list \<Rightarrow> jsnum \<times> jsnum \<times> jsnum \<times> nat" where
  "stats_pass1 nullValue acc [] = acc"
| "stats_pass1 nullValue (mn, mx, sm, cnt) (x # xs) =
     (if \<not> strict_eq (Num x) nullValue
      then stats_pass1 nullValue
             (if js_lt x mn then x else mn, if js_gt x mx then x else mx, js_add sm x, Suc cnt) xs
      else stats_pass1 nullValue (mn, mx, sm, cnt) xs)"

text \<open>The second pass: the sum of \<open>Math.pow(matrix[i] - avg, 2)\<close> over the same cells.\<close>

fun stats_pass2 :: "jsval \<Rightarrow> jsnum \<Rightarrow> jsnum \<Rightarrow> jsnum list \<Rightarrow> jsnum" where
  "stats_pass2 nullValue avg v [] = v"
| "stats_pass2 nullValue avg v (x # xs) =
     (if \<not> strict_eq (Num x) nullValue
      then stats_pass2 nullValue avg (js_add v (js_mul (js_sub x avg) (js_sub x avg))) xs
      else stats_pass2 nullValue avg v xs)"

definition calculateStatistics :: "Band \<Rightarrow> Band" where
  "calculateStatistics b =
     (let matrix = b_matrix b;
          nullValue = b_null b;
          (mn, mx, sm, cnt) = stats_pass1 nullValue (PInf, NInf, Fin 0, 0) matrix;
          avg = js_div sm (Fin (real cnt));
          variance = js_div (stats_pass2 nullValue avg (Fin 0) matrix) (Fin (real cnt))
      in b\<lparr>b_statistics := \<lparr>stat_min = Some mn, stat_max = Some mx, stat_sum = Some sm,
                               stat_count = Some cnt, stat_variance = Some variance\<rparr>\<rparr>)"

text \<open>The constructor's options; \<open>nodata\<close> and \<open>origin\<close> may be left \<open>undefined\<close>.\<close>

record BandOptions =
  o_binary :: bool
  o_extent :: Extent
  o_nodata :: jsval
  o_matrix :: "jsnum list"
  o_origin :: "(real \<times> real) option"
  o_resolution :: "real \<times> real"
  o_stride :: nat
  o_type :: MatrixType

definition Band_new :: "BandOptions \<Rightarrow> Band" where
  "Band_new options =
     calculateStatistics
       \<lparr>b_type = o_type options,
        b_null = (if o_nodata options \<noteq> Undefined then o_nodata options else Null),
        b_extent = o_extent options,
        b_origin = (case o_origin options of
                      Some og \<Rightarrow> og
                    | None \<Rightarrow> (case o_extent options of (x0, y0, x1, y1) \<Rightarrow>
                        (x0 + fst (o_resolution options) / 2, y0 + snd (o_resolution options) / 2))),
        b_binary = o_binary options,
        b_matrix = o_matrix options,
        b_stride = o_stride options,
        b_resolution = o_resolution options,
        b_statistics = \<lparr>stat_min = None, stat_max = None, stat_sum = None,
                         stat_count = None, stat_variance = None\<rparr>\<rparr>"


section \<open>Monochrome (\<open>ol/style/Monochrome\<close>)\<close>

text \<open>
  \<open>min_\<close> and \<open>max_\<close> are a number or \<open>undefined\<close>; \<open>band_\<close> is an array index or
  \<open>undefined\<close>; \<open>checksum_\<close> is the cached string or \<open>undefined\<close>.
\<close>

record Monochrome =
  m_min :: "jsnum option"
  m_max :: "jsnum option"
  m_band :: "nat option"
  m_checksum :: "string option"

definition Monochrome_setMin :: "jsnum option \<Rightarrow> Monochrome \<Rightarrow> Monochrome" where
  "Monochrome_setMin v s = s\<lparr>m_min := v, m_checksum := None\<rparr>"

definition Monochrome_setMax :: "jsnum option \<Rightarrow> Monochrome \<Rightarrow> Monochrome" where
  "Monochrome_setMax v s = s\<lparr>m_max := v, m_checksum := None\<rparr>"

text \<open>
  \<open>apply\<close>: when a bound is not a number it is taken from \<open>Math.min.apply(matrix)\<close>,
  which passes the matrix as \<open>this\<close> and no argument, so the result is \<open>Infinity\<close>
  (\<open>-Infinity\<close> for \<open>Math.max\<close>) whatever the matrix holds.
\<close>

text \<open>One round of the loop: the four values written for one cell.\<close>

definition Monochrome_cell ::
  "jsnum \<Rightarrow> jsnum \<Rightarrow> jsval \<Rightarrow> jsnum \<Rightarrow> jsnum \<Rightarrow> jsnum \<Rightarrow> jsnum list" where
  "Monochrome_cell mn rng nodata minAlpha maxAlpha x =
     (let l = js_div (js_sub x mn) rng;
          v = clamp (Math_round (js_mul (Fin 255) l)) (Fin 0) (Fin 255)
      in [v, v, v, if strict_eq (Num x) nodata then maxAlpha else minAlpha])"

fun Monochrome_loop ::
  "jsnum \<Rightarrow> jsnum \<Rightarrow> jsval \<Rightarrow> jsnum \<Rightarrow> jsnum \<Rightarrow> jsnum list \<Rightarrow> jsnum list" where
  "Monochrome_loop mn rng nodata minAlpha maxAlpha [] = []"
| "Monochrome_loop mn rng nodata minAlpha maxAlpha (x # xs) =
     Monochrome_cell mn rng nodata minAlpha maxAlpha x
     @ Monochrome_loop mn rng nodata minAlpha maxAlpha xs"

definition Monochrome_apply ::
  "Monochrome \<Rightarrow> jsnum list \<Rightarrow> jsval \<Rightarrow> jsnum \<Rightarrow> jsnum \<Rightarrow> jsnum list" where
  "Monochrome_apply s matrix nodata minAlpha maxAlpha =
     (let mn = (case m_min s of Some a \<Rightarrow> a | None \<Rightarrow> PInf);
          mx = (case m_max s of Some a \<Rightarrow> a | None \<Rightarrow> NInf);
          rng = js_sub mx mn
      in Monochrome_loop mn rng nodata minAlpha maxAlpha matrix)"

text \<open>
  \<open>fillMissingValues\<close>: \<open>bands[bandIndex]\<close> is a band or \<open>undefined\<close>; \<open>!this.getMin()\<close>
  and \<open>bandStat.min\<close> are tests of truthiness.
\<close>

definition Monochrome_fillMissingValues :: "Band list \<Rightarrow> Monochrome \<Rightarrow> Monochrome" where
  "Monochrome_fillMissingValues bands s =
     (case m_band s of
        None \<Rightarrow> s
      | Some bandIndex \<Rightarrow>
          (case at_index bands bandIndex of
             None \<Rightarrow> s
           | Some band \<Rightarrow>
               (let bandStat = b_statistics band;
                    s1 = (if \<not> truthy (opt_val (m_min s)) \<and> truthy (opt_val (stat_min bandStat))
                          then Monochrome_setMin (stat_min bandStat) s else s);
                    s2 = (if \<not> truthy (opt_val (m_max s1)) \<and> truthy (opt_val (stat_max bandStat))
                          then Monochrome_setMax (stat_max bandStat) s1 else s1)
                in s2)))"

text \<open>
  \<open>getChecksum\<close> returns the string and the style with the string cached.
  \<open>Number.prototype.toString\<close> is the parameter \<open>toStr\<close>.
\<close>

definition Monochrome_getChecksum ::
  "(jsnum \<Rightarrow> string) \<Rightarrow> Monochrome \<Rightarrow> string \<times> Monochrome" where
  "Monochrome_getChecksum toStr s =
     (case m_checksum s of
        Some c \<Rightarrow> (c, s)
      | None \<Rightarrow>
          (let c = ''m'' @
                 (case m_band s of
                    Some b \<Rightarrow>
                      toStr (Fin (real b)) @ '','' @
                      (case m_min s of Some v \<Rightarrow> toStr v | None \<Rightarrow> ''-'') @ '','' @
                      (case m_max s of Some v \<Rightarrow> toStr v | None \<Rightarrow> ''-'')
                  | None \<Rightarrow> ''-'')
           in (c, s\<lparr>m_checksum := Some c\<rparr>)))"

section \<open>Pseudocolor (\<open>ol/style/Pseudocolor\<close>)\<close>

text \<open>
  Modelled from the spec: \<open>asArray\<close> of \<open>ol/color.js\<close>, which is not among the sources.
  A colour is the array \<open>[r, g, b, a]\<close>, and \<open>asArray\<close> is the identity on a colour given
  as such an array; colours are kept in this form.
\<close>

datatype Color = RGBA jsnum jsnum jsnum jsnum

fun red :: "Color \<Rightarrow> jsnum" where "red (RGBA r g b a) = r"
fun green :: "Color \<Rightarrow> jsnum" where "green (RGBA r g b a) = g"
fun blue :: "Color \<Rightarrow> jsnum" where "blue (RGBA r g b a) = b"

datatype PseudocolorMode = INTERPOLATE | CATEGORIZED

text \<open>
  A breakpoint is \<open>[value, colour]\<close>; \<open>addBreakpoint\<close> asserts that the value is a
  number. Breakpoint values are finite numbers here, the values on which the
  comparator \<open>a[0] - b[0]\<close> of \<open>createIntervals_\<close> is an order.
\<close>

record Pseudocolor =
  p_min :: "jsnum option"
  p_max :: "jsnum option"
  p_band :: "nat option"
  p_startColor :: Color
  p_endColor :: Color
  p_mode :: PseudocolorMode
  p_breakpoints :: "(real \<times> Color) list"
  p_checksum :: "string option"

definition Pseudocolor_setMin :: "jsnum option \<Rightarrow> Pseudocolor \<Rightarrow> Pseudocolor" where
  "Pseudocolor_setMin v s = s\<lparr>p_min := v, p_checksum := None\<rparr>"

definition Pseudocolor_setMax :: "jsnum option \<Rightarrow> Pseudocolor \<Rightarrow> Pseudocolor" where
  "Pseudocolor_setMax v s = s\<lparr>p_max := v, p_checksum := None\<rparr>"

definition Pseudocolor_addBreakpoint :: "real \<times> Color \<Rightarrow> Pseudocolor \<Rightarrow> Pseudocolor" where
  "Pseudocolor_addBreakpoint bp s = s\<lparr>p_breakpoints := p_breakpoints s @ [bp], p_checksum := None\<rparr>"

definition Pseudocolor_fillMissingValues :: "Band list \<Rightarrow> Pseudocolor \<Rightarrow> Pseudocolor" where
  "Pseudocolor_fillMissingValues bands s =
     (case p_band s of
        None \<Rightarrow> s
      | Some bandIndex \<Rightarrow>
          (case at_index bands bandIndex of
             None \<Rightarrow> s
           | Some band \<Rightarrow>
               (let bandStat = b_statistics band;
                    s1 = (if \<not> truthy (opt_val (p_min s)) \<and> truthy (opt_val (stat_min bandStat))
                          then Pseudocolor_setMin (stat_min bandStat) s else s);
                    s2 = (if \<not> truthy (opt_val (p_max s1)) \<and> truthy (opt_val (stat_max bandStat))
                          then Pseudocolor_setMax (stat_max bandStat) s1 else s1)
                in s2)))"

record PseudocolorInterval =
  iv_lower :: "jsnum \<times> Color"
  iv_higher :: "jsnum \<times> Color"
  iv_range :: jsnum

text \<open>
  Modelled from the spec: \<open>stableSort\<close> of \<open>ol/array.js\<close>, which is not among the
  sources. The spec has the intervals built "ascending-sorted" and the breakpoints
  "processed in ascending value order": a stable sort by the comparator
  \<open>a[0] - b[0]\<close>, that is by breakpoint value.
\<close>

definition stableSort :: "(real \<times> Color) list \<Rightarrow> (real \<times> Color) list" where
  "stableSort breakpoints = sort_key fst breakpoints"

text \<open>The loop of \<open>createIntervals_\<close> over the sorted breakpoints: the intervals pushed
  so far and \<open>prev\<close>.\<close>

fun createIntervals_loop ::
  "jsnum \<Rightarrow> jsnum \<Rightarrow> PseudocolorInterval list \<Rightarrow> jsnum \<times> Color \<Rightarrow> (real \<times> Color) list
   \<Rightarrow> PseudocolorInterval list \<times> (jsnum \<times> Color)" where
  "createIntervals_loop mn mx intervals prev [] = (intervals, prev)"
| "createIntervals_loop mn mx intervals prev (p # ps) =
     (if js_gt (Fin (fst p)) mn \<and> js_lt (Fin (fst p)) mx
      then createIntervals_loop mn mx
             (intervals @ [\<lparr>iv_lower = prev, iv_higher = (Fin (fst p), snd p),
                             iv_range = js_sub (Fin (fst p)) (fst prev)\<rparr>])
             (Fin (fst p), snd p) ps
      else createIntervals_loop mn mx intervals prev ps)"

definition createIntervals :: "Pseudocolor \<Rightarrow> jsnum \<Rightarrow> jsnum \<Rightarrow> PseudocolorInterval list" where
  "createIntervals s mn mx =
     (let sColor = p_startColor s;
          eColor = p_endColor s;
          breakpoints = p_breakpoints s;
          (intervals, prev) =
             (if breakpoints \<noteq> []
              then createIntervals_loop mn mx [] (mn, sColor) (stableSort breakpoints)
              else ([], (mn, sColor)))
      in intervals @ [\<lparr>iv_lower = prev, iv_higher = (mx, eColor),
                         iv_range = js_sub mx (fst prev)\<rparr>])"

text \<open>The inner loop of \<open>apply\<close>: the colour written at the first interval whose upper
  bound the cell does not exceed, nothing if there is none.\<close>

fun Pseudocolor_colour :: "bool \<Rightarrow> jsnum \<Rightarrow> PseudocolorInterval list \<Rightarrow> jsnum list" where
  "Pseudocolor_colour categorized x [] = []"
| "Pseudocolor_colour categorized x (iv # ivs) =
     (if js_le x (fst (iv_higher iv))
      then (if categorized
            then [red (snd (iv_lower iv)), green (snd (iv_lower iv)), blue (snd (iv_lower iv))]
            else (let ratio = js_div (js_sub x (fst (iv_lower iv))) (iv_range iv)
                  in [lerp (red (snd (iv_lower iv))) (red (snd (iv_higher iv))) ratio,
                      lerp (green (snd (iv_lower iv))) (green (snd (iv_higher iv))) ratio,
                      lerp (blue (snd (iv_lower iv))) (blue (snd (iv_higher iv))) ratio]))
      else Pseudocolor_colour categorized x ivs)"

text \<open>One round of the outer loop: the values written for one cell.\<close>

definition Pseudocolor_cell ::
  "PseudocolorInterval list \<Rightarrow> bool \<Rightarrow> jsnum \<Rightarrow> jsnum \<Rightarrow> jsval \<Rightarrow> jsnum \<Rightarrow> jsnum \<Rightarrow> jsnum
   \<Rightarrow> jsnum list" where
  "Pseudocolor_cell intervals categorized mn mx nodata minAlpha maxAlpha x =
     (if js_lt x mn \<or> js_gt x mx
      then (let v = (if js_lt x mn then Fin 0 else Fin 255) in [v, v, v])
      else Pseudocolor_colour categorized x intervals)
     @ [if strict_eq (Num x) nodata then maxAlpha else minAlpha]"

fun Pseudocolor_loop ::
  "PseudocolorInterval list \<Rightarrow> bool \<Rightarrow> jsnum \<Rightarrow> jsnum \<Rightarrow> jsval \<Rightarrow> jsnum \<Rightarrow> jsnum \<Rightarrow> jsnum list
   \<Rightarrow> jsnum list" where
  "Pseudocolor_loop intervals categorized mn mx nodata minAlpha maxAlpha [] = []"
| "Pseudocolor_loop intervals categorized mn mx nodata minAlpha maxAlpha (x # xs) =
     Pseudocolor_cell intervals categorized mn mx nodata minAlpha maxAlpha x
     @ Pseudocolor_loop intervals categorized mn mx nodata minAlpha maxAlpha xs"

definition Pseudocolor_apply ::
  "Pseudocolor \<Rightarrow> jsnum list \<Rightarrow> jsval \<Rightarrow> jsnum \<Rightarrow> jsnum \<Rightarrow> jsnum list" where
  "Pseudocolor_apply s matrix nodata minAlpha maxAlpha =
     (let mn = (case p_min s of Some a \<Rightarrow> a | None \<Rightarrow> PInf);
          mx = (case p_max s of Some a \<Rightarrow> a | None \<Rightarrow> NInf);
          intervals = createIntervals s mn mx;
          categorized = (p_mode s = CATEGORIZED)
      in Pseudocolor_loop intervals categorized mn mx nodata minAlpha maxAlpha matrix)"

datatype error = TypeError

text \<open>
  The strings \<open>getChecksum\<close> builds from: \<open>num_str\<close> is \<open>Number.prototype.toString\<close>,
  \<open>col_str\<close> is \<open>Array.prototype.toString\<close> on a colour, and \<open>asString\<close> is
  \<open>asString\<close> of \<open>ol/color.js\<close>, which is not among the sources.
\<close>

record Strings =
  num_str :: "jsnum \<Rightarrow> string"
  col_str :: "Color \<Rightarrow> string"
  asString :: "Color \<Rightarrow> string"

definition opt_str :: "Strings \<Rightarrow> jsnum option \<Rightarrow> string" where
  "opt_str S x = (case x of None \<Rightarrow> ''undefined'' | Some v \<Rightarrow> num_str S v)"

fun mode_str :: "PseudocolorMode \<Rightarrow> string" where
  "mode_str INTERPOLATE = ''interpolate''"
| "mode_str CATEGORIZED = ''categorized''"

text \<open>A string is never \<open>undefined\<close>, and is truthy unless it is empty.\<close>

definition string_defined :: "string \<Rightarrow> bool" where
  "string_defined str = True"

definition string_truthy :: "string \<Rightarrow> bool" where
  "string_truthy str = (str \<noteq> [])"

text \<open>
  The operand added to \<open>'p'\<close> in \<open>getChecksum\<close>. In the source expression
  \<open>a + ',' + b + ',' + this.getMin() !== undefined ? x : '-' + ',' + c ? y : ...\<close>
  the operator \<open>+\<close> binds tighter than \<open>!==\<close>, and \<open>!==\<close> tighter than \<open>? :\<close>, so each
  condition tests the string concatenated up to it, and \<open>this.getMin().toString()\<close>
  is evaluated whether or not the minimum is defined.
\<close>

definition Pseudocolor_checksum_operand :: "Strings \<Rightarrow> Pseudocolor \<Rightarrow> nat \<Rightarrow> error + string" where
  "Pseudocolor_checksum_operand S s b =
     (if string_defined (num_str S (Fin (real b)) @ '','' @ mode_str (p_mode s) @ '','' @ opt_str S (p_min s))
      then (case p_min s of None \<Rightarrow> Inl TypeError | Some v \<Rightarrow> Inr (num_str S v))
      else if string_truthy (''-'' @ '','' @ col_str S (p_startColor s))
      then Inr (asString S (p_startColor s))
      else if string_defined (''-'' @ '','' @ opt_str S (p_max s))
      then (case p_max s of None \<Rightarrow> Inl TypeError | Some v \<Rightarrow> Inr (num_str S v))
      else if string_truthy (''-'' @ col_str S (p_endColor s))
      then Inr (asString S (p_endColor s))
      else Inr (''-'' @ '',''))"

definition Pseudocolor_checksum_breakpoints :: "Strings \<Rightarrow> (real \<times> Color) list \<Rightarrow> string \<Rightarrow> string" where
  "Pseudocolor_checksum_breakpoints S breakpoints c =
     (if breakpoints \<noteq> []
      then butlast (foldl (\<lambda>acc bp. acc @ num_str S (Fin (fst bp)) @ '','' @ asString S (snd bp) @ '','')
                      (c @ ''('') breakpoints) @ '')''
      else c @ ''-'')"

definition Pseudocolor_getChecksum :: "Strings \<Rightarrow> Pseudocolor \<Rightarrow> error + string \<times> Pseudocolor" where
  "Pseudocolor_getChecksum S s =
     (case p_checksum s of
        Some c \<Rightarrow> Inr (c, s)
      | None \<Rightarrow>
          (case p_band s of
             Some b \<Rightarrow>
               (case Pseudocolor_checksum_operand S s b of
                  Inl e \<Rightarrow> Inl e
                | Inr str \<Rightarrow>
                    (let c = Pseudocolor_checksum_breakpoints S (p_breakpoints s) (''p'' @ str)
                     in Inr (c, s\<lparr>p_checksum := Some c\<rparr>)))
           | None \<Rightarrow> (let c = ''p'' @ ''-'' in Inr (c, s\<lparr>p_checksum := Some c\<rparr>))))"

section \<open>RGB (\<open>ol/style/RGB\<close>)\<close>

record RGB =
  r_red :: Monochrome
  r_green :: Monochrome
  r_blue :: Monochrome

definition RGB_getBandIndex :: "RGB \<Rightarrow> nat option list" where
  "RGB_getBandIndex s = [m_band (r_red s), m_band (r_green s), m_band (r_blue s)]"

definition RGB_fillMissingValues :: "Band list \<Rightarrow> RGB \<Rightarrow> RGB" where
  "RGB_fillMissingValues bands s =
     s\<lparr>r_red := Monochrome_fillMissingValues bands (r_red s),
       r_green := Monochrome_fillMissingValues bands (r_green s),
       r_blue := Monochrome_fillMissingValues bands (r_blue s)\<rparr>"

text \<open>
  \<open>xs.splice(i, 0, x)\<close> inserts \<open>x\<close> before position \<open>i\<close>, at the end when the array
  is shorter. A matrix slot holds an array or \<open>undefined\<close>.
\<close>

definition splice_in :: "nat \<Rightarrow> 'a \<Rightarrow> 'a list \<Rightarrow> 'a list" where
  "splice_in i x xs = take i xs @ x # drop i xs"

definition RGB_pad ::
  "nat option list \<Rightarrow> nat \<Rightarrow> jsnum list option list \<times> jsval list
   \<Rightarrow> jsnum list option list \<times> jsval list" where
  "RGB_pad bandIndices i mn =
     (if bandIndices ! i = None
      then (splice_in i None (fst mn), splice_in i Undefined (snd mn))
      else mn)"

text \<open>The matrices and nodata values after the first loop of \<open>apply\<close>.\<close>

definition RGB_channels ::
  "RGB \<Rightarrow> jsnum list option list \<Rightarrow> jsval list \<Rightarrow> jsnum list option list \<times> jsval list" where
  "RGB_channels s matrices nodata =
     (let bandIndices = RGB_getBandIndex s
      in RGB_pad bandIndices 2 (RGB_pad bandIndices 1 (RGB_pad bandIndices 0 (matrices, nodata))))"

text \<open>\<open>matrices[c]\<close> and \<open>nodata[c]\<close>: \<open>undefined\<close> outside the array.\<close>

definition matrix_at :: "jsnum list option list \<Rightarrow> nat \<Rightarrow> jsnum list option" where
  "matrix_at matrices c = (if c < length matrices then matrices ! c else None)"

definition nodata_at :: "jsval list \<Rightarrow> nat \<Rightarrow> jsval" where
  "nodata_at nodata c = (if c < length nodata then nodata ! c else Undefined)"

definition RGB_refMatrix :: "jsnum list option list \<Rightarrow> jsnum list" where
  "RGB_refMatrix matrices =
     (case matrix_at matrices 0 of Some m \<Rightarrow> m
      | None \<Rightarrow> (case matrix_at matrices 1 of Some m \<Rightarrow> m
      | None \<Rightarrow> (case matrix_at matrices 2 of Some m \<Rightarrow> m
      | None \<Rightarrow> [])))"

definition RGB_lerp :: "jsnum list option \<Rightarrow> nat \<Rightarrow> Monochrome \<Rightarrow> jsnum" where
  "RGB_lerp matrix i channel =
     (case matrix of
        Some m \<Rightarrow> js_div (js_sub (to_number (js_index m i)) (to_number (opt_val (m_min channel))))
                         (js_sub (to_number (opt_val (m_max channel))) (to_number (opt_val (m_min channel))))
      | None \<Rightarrow> Fin 0)"

definition RGB_isNodata :: "jsnum list option \<Rightarrow> nat \<Rightarrow> jsval \<Rightarrow> bool" where
  "RGB_isNodata matrix i nodata =
     (case matrix of Some m \<Rightarrow> strict_eq (js_index m i) nodata | None \<Rightarrow> True)"

text \<open>One round of the second loop: the four values written for cell \<open>i\<close>.\<close>

definition RGB_cell ::
  "RGB \<Rightarrow> jsnum list option list \<Rightarrow> jsval list \<Rightarrow> jsnum \<Rightarrow> jsnum \<Rightarrow> nat \<Rightarrow> jsnum list" where
  "RGB_cell s matrices nodata minAlpha maxAlpha i =
     (let redLerp = RGB_lerp (matrix_at matrices 0) i (r_red s);
          greenLerp = RGB_lerp (matrix_at matrices 1) i (r_green s);
          blueLerp = RGB_lerp (matrix_at matrices 2) i (r_blue s);
          redNodata = RGB_isNodata (matrix_at matrices 0) i (nodata_at nodata 0);
          greenNodata = RGB_isNodata (matrix_at matrices 1) i (nodata_at nodata 1);
          blueNodata = RGB_isNodata (matrix_at matrices 2) i (nodata_at nodata 2)
      in [clamp (Math_round (js_mul (Fin 255) redLerp)) (Fin 0) (Fin 255),
          clamp (Math_round (js_mul (Fin 255) greenLerp)) (Fin 0) (Fin 255),
          clamp (Math_round (js_mul (Fin 255) blueLerp)) (Fin 0) (Fin 255),
          if redNodata \<and> greenNodata \<and> blueNodata then maxAlpha else minAlpha])"

definition RGB_apply ::
  "RGB \<Rightarrow> jsnum list option list \<Rightarrow> jsval list \<Rightarrow> jsnum \<Rightarrow> jsnum \<Rightarrow> jsnum list" where
  "RGB_apply s matrices nodata minAlpha maxAlpha =
     (let (ms, nd) = RGB_channels s matrices nodata;
          refMatrix = RGB_refMatrix ms
      in concat (map (RGB_cell s ms nd minAlpha maxAlpha) [0..<length refMatrix]))"

section \<open>The coverage source (\<open>ol/source/Coverage\<close>)\<close>

datatype CoverageType = RECTANGULAR | HEXAGONAL | CUSTOM

record CoveragePattern =
  pat_shape :: "(real \<times> real) list"
  pat_columnPattern :: "(real \<times> real) \<times> real"
  pat_rowPattern :: "(real \<times> real) \<times> real \<times> real"

text \<open>A style is one of the three engines; \<open>getBandIndex\<close> is an array only for RGB.\<close>

datatype Style = MonochromeStyle Monochrome | PseudocolorStyle Pseudocolor | RGBStyle RGB

text \<open>
  The source: its bands in insertion order, its type, pattern and revision, whether it
  wraps the world, and the code of its projection.
\<close>

record CoverageSource =
  cs_bands :: "Band list"
  cs_type :: "CoverageType option"
  cs_pattern :: "CoveragePattern option"
  cs_revision :: nat
  cs_wrapX :: bool
  cs_projection :: string

text \<open>
  What \<open>alignRasterBands\<close> of \<open>ol/coverage/util.js\<close> returns. The function is not among
  the sources and is a parameter of \<open>getStyledBand\<close>.
\<close>

record Aligned =
  al_matrices :: "jsnum list list"
  al_extent :: Extent
  al_origin :: "real \<times> real"
  al_stride :: nat
  al_resolution :: "real \<times> real"

text \<open>
  The loop of \<open>getStyledBand\<close> over the band indices of an RGB style. \<open>bands[i]\<close> is
  \<open>undefined\<close> when the source has no band \<open>i\<close>, and \<open>bands[i].getNullValue()\<close> then
  throws a TypeError.
\<close>

fun gather_bands ::
  "Band list \<Rightarrow> nat option list \<Rightarrow> Band list \<times> jsval list \<Rightarrow> error + Band list \<times> jsval list" where
  "gather_bands bands [] acc = Inr acc"
| "gather_bands bands (None # bandIndex) acc = gather_bands bands bandIndex acc"
| "gather_bands bands (Some i # bandIndex) (toAlign, nulls) =
     (case at_index bands i of
        None \<Rightarrow> Inl TypeError
      | Some band \<Rightarrow> gather_bands bands bandIndex (toAlign @ [band], nulls @ [b_null band]))"

text \<open>
  The band returned for a styled matrix: the constructor is called without \<open>nodata\<close>.
\<close>

definition styled_band ::
  "jsnum list \<Rightarrow> Extent \<Rightarrow> real \<times> real \<Rightarrow> nat \<Rightarrow> real \<times> real \<Rightarrow> Band" where
  "styled_band styledMatrix ext origin stride resolution =
     Band_new \<lparr>o_binary = False, o_extent = ext, o_nodata = Undefined, o_matrix = styledMatrix,
               o_origin = Some origin, o_resolution = resolution, o_stride = stride, o_type = UINT8\<rparr>"

text \<open>
  \<open>getStyledBand\<close>: the new band, \<open>null\<close> (\<open>None\<close>), or the TypeError thrown by a call on
  \<open>undefined\<close>. In the second branch \<open>band\<close> is \<open>this.getBands()[bandIndex]\<close>, and
  \<open>band.getCoverageData()\<close> throws when the source has no such band.
\<close>

definition getStyledBand ::
  "(Band list \<Rightarrow> CoverageType option \<Rightarrow> Aligned) \<Rightarrow> CoverageSource \<Rightarrow> Style \<Rightarrow> jsnum \<Rightarrow> jsnum
   \<Rightarrow> error + Band option" where
  "getStyledBand alignRasterBands src style minAlpha maxAlpha =
     (case style of
        RGBStyle s \<Rightarrow>
          (case gather_bands (cs_bands src) (RGB_getBandIndex s) ([], []) of
             Inl e \<Rightarrow> Inl e
           | Inr (toAlign, nulls) \<Rightarrow>
               (let aligned = alignRasterBands toAlign (cs_type src);
                    styledMatrix = RGB_apply s (map Some (al_matrices aligned)) nulls minAlpha maxAlpha
                in Inr (Some (styled_band styledMatrix (al_extent aligned) (al_origin aligned)
                                (al_stride aligned) (al_resolution aligned)))))
      | MonochromeStyle s \<Rightarrow>
          (case m_band s of
             None \<Rightarrow> Inr None
           | Some bandIndex \<Rightarrow>
               (case at_index (cs_bands src) bandIndex of
                  None \<Rightarrow> Inl TypeError
                | Some band \<Rightarrow>
                    Inr (Some (styled_band
                      (Monochrome_apply s (b_matrix band) (b_null band) minAlpha maxAlpha)
                      (b_extent band) (b_origin band) (b_stride band) (b_resolution band)))))
      | PseudocolorStyle s \<Rightarrow>
          (case p_band s of
             None \<Rightarrow> Inr None
           | Some bandIndex \<Rightarrow>
               (case at_index (cs_bands src) bandIndex of
                  None \<Rightarrow> Inl TypeError
                | Some band \<Rightarrow>
                    Inr (Some (styled_band
                      (Pseudocolor_apply s (b_matrix band) (b_null band) minAlpha maxAlpha)
                      (b_extent band) (b_origin band) (b_stride band) (b_resolution band))))))"

section \<open>The polygon replay (\<open>ol/render/webgl/PolygonReplay\<close>)\<close>

text \<open>
  A feature as the replay uses it: its uid and, when it has a geometry, the extent of
  the geometry.
\<close>

record Feature =
  f_uid :: nat
  f_geometry :: "Extent option"


text \<open>
  The fields of the replay that the drawing calls and the hit detection use. Of the
  array \<open>indices\<close> only the length is kept: \<open>Tessellator\<close>, which computes its contents, is
  not among the sources. \<open>pr_fillColor\<close> and \<open>pr_changed\<close> are the fields of \<open>state_\<close>.
\<close>

record 'c PolygonReplay =
  pr_indices :: nat
  pr_startIndices :: "nat list"
  pr_startIndicesFeature :: "Feature list"
  pr_styles :: "'c list"
  pr_styleIndices :: "nat list"
  pr_fillColor :: "'c option"
  pr_changed :: bool

definition PolygonReplay_new :: "'c PolygonReplay" where
  "PolygonReplay_new = \<lparr>pr_indices = 0, pr_startIndices = [], pr_startIndicesFeature = [],
     pr_styles = [], pr_styleIndices = [], pr_fillColor = None, pr_changed = False\<rparr>"

text \<open>
  A polygon as \<open>drawPolygon\<close> sees it: whether \<open>ends\<close> is not empty, whether the outer
  ring is not empty, and the number of indices the tessellator yields for it.
\<close>

record Polygon =
  pg_hasEnds :: bool
  pg_hasOuterRing :: bool
  pg_numIndices :: nat

text \<open>\<open>setFillStrokeStyle\<close>, given the fill colour it computes from the fill style.\<close>

definition setFillStrokeStyle :: "'c \<Rightarrow> 'c PolygonReplay \<Rightarrow> 'c PolygonReplay" where
  "setFillStrokeStyle fillStyleColor rp =
     (if pr_fillColor rp = None \<or> pr_fillColor rp \<noteq> Some fillStyleColor
      then rp\<lparr>pr_fillColor := Some fillStyleColor, pr_changed := True,
              pr_styles := pr_styles rp @ [fillStyleColor]\<rparr>
      else rp)"

definition drawPolygon :: "Polygon \<Rightarrow> Feature \<Rightarrow> 'c PolygonReplay \<Rightarrow> 'c PolygonReplay" where
  "drawPolygon polygonGeometry feature rp =
     (if pg_hasEnds polygonGeometry \<and> pg_hasOuterRing polygonGeometry
      then (let rp1 = rp\<lparr>pr_startIndices := pr_startIndices rp @ [pr_indices rp],
                          pr_startIndicesFeature := pr_startIndicesFeature rp @ [feature]\<rparr>;
                rp2 = (if pr_changed rp1
                       then rp1\<lparr>pr_styleIndices := pr_styleIndices rp1 @ [pr_indices rp1],
                                pr_changed := False\<rparr>
                       else rp1)
            in rp2\<lparr>pr_indices := pr_indices rp2 + pg_numIndices polygonGeometry\<rparr>)
      else rp)"

text \<open>The loop of \<open>drawMultiPolygon\<close> over the polygons: the length of \<open>indices\<close> after it.\<close>

fun drawMultiPolygon_loop :: "Polygon list \<Rightarrow> nat \<Rightarrow> nat" where
  "drawMultiPolygon_loop [] n = n"
| "drawMultiPolygon_loop (pg # pgs) n =
     drawMultiPolygon_loop pgs
       (if pg_hasEnds pg \<and> pg_hasOuterRing pg then n + pg_numIndices pg else n)"

definition drawMultiPolygon :: "Polygon list \<Rightarrow> Feature \<Rightarrow> 'c PolygonReplay \<Rightarrow> 'c PolygonReplay" where
  "drawMultiPolygon multiPolygonGeometry feature rp =
     (let currIndex = pr_indices rp;
          rp1 = rp\<lparr>pr_indices := drawMultiPolygon_loop multiPolygonGeometry (pr_indices rp)\<rparr>
      in if pr_indices rp1 > currIndex
         then (let rp2 = rp1\<lparr>pr_startIndices := pr_startIndices rp1 @ [currIndex],
                             pr_startIndicesFeature := pr_startIndicesFeature rp1 @ [feature]\<rparr>
               in if pr_changed rp2
                  then rp2\<lparr>pr_styleIndices := pr_styleIndices rp2 @ [currIndex], pr_changed := False\<rparr>
                  else rp2)
         else rp1)"

definition finish :: "'c PolygonReplay \<Rightarrow> 'c PolygonReplay" where
  "finish rp =
     (let rp1 = rp\<lparr>pr_startIndices := pr_startIndices rp @ [pr_indices rp]\<rparr>
      in if pr_styleIndices rp1 = [] \<and> pr_styles rp1 \<noteq> [] then rp1\<lparr>pr_styles := []\<rparr> else rp1)"


text \<open>
  What the function does for a candidate: it clears the buffers, draws the elements
  \<open>start\<close> to \<open>end\<close> with the fill style of the group, and calls the callback.
\<close>

record 'c Visit =
  v_style :: "'c option"
  v_feature :: Feature
  v_start :: nat
  v_end :: "nat option"

text \<open>
  How the \<open>while\<close> loop ends: the function returns a truthy result from inside it,
  or the loop is left with \<open>featureIndex + 1\<close> and \<open>end\<close>. Both carry the visits made.
\<close>

datatype ('r, 'c) WhileExit =
  Return 'r "'c Visit list"
| Exit nat "nat option" "'c Visit list"





text \<open>A batch is accumulated by a sequence of drawing calls and \<open>finish\<close>.\<close>

datatype 'c DrawCall =
  SetFillStrokeStyle 'c
| DrawPolygon Polygon Feature
| DrawMultiPolygon "Polygon list" Feature

fun draw_call :: "'c PolygonReplay \<Rightarrow> 'c DrawCall \<Rightarrow> 'c PolygonReplay" where
  "draw_call rp (SetFillStrokeStyle c) = setFillStrokeStyle c rp"
| "draw_call rp (DrawPolygon pg f) = drawPolygon pg f rp"
| "draw_call rp (DrawMultiPolygon pgs f) = drawMultiPolygon pgs f rp"

definition accumulate :: "'c DrawCall list \<Rightarrow> 'c PolygonReplay" where
  "accumulate calls = finish (foldl draw_call PolygonReplay_new calls)"

section \<open>The coverage layer renderers (\<open>ol/renderer/canvas/CoverageLayer\<close>,
  \<open>ol/renderer/webgl/CoverageLayer\<close>)\<close>

subsection \<open>Styles as the renderers use them\<close>

definition RGB_getChecksum :: "(jsnum \<Rightarrow> string) \<Rightarrow> RGB \<Rightarrow> string \<times> RGB" where
  "RGB_getChecksum toStr s =
     (let (cr, red') = Monochrome_getChecksum toStr (r_red s);
          (cg, green') = Monochrome_getChecksum toStr (r_green s);
          (cb, blue') = Monochrome_getChecksum toStr (r_blue s)
      in (''r'' @ cr @ ''g'' @ cg @ ''b'' @ cb, s\<lparr>r_red := red', r_green := green', r_blue := blue'\<rparr>))"

fun Style_getChecksum :: "Strings \<Rightarrow> Style \<Rightarrow> error + string \<times> Style" where
  "Style_getChecksum S (MonochromeStyle s) =
     (case Monochrome_getChecksum (num_str S) s of (c, s') \<Rightarrow> Inr (c, MonochromeStyle s'))"
| "Style_getChecksum S (PseudocolorStyle s) =
     (case Pseudocolor_getChecksum S s of Inl e \<Rightarrow> Inl e | Inr (c, s') \<Rightarrow> Inr (c, PseudocolorStyle s'))"
| "Style_getChecksum S (RGBStyle s) =
     (case RGB_getChecksum (num_str S) s of (c, s') \<Rightarrow> Inr (c, RGBStyle s'))"

fun Style_fillMissingValues :: "Band list \<Rightarrow> Style \<Rightarrow> Style" where
  "Style_fillMissingValues bands (MonochromeStyle s) = MonochromeStyle (Monochrome_fillMissingValues bands s)"
| "Style_fillMissingValues bands (PseudocolorStyle s) = PseudocolorStyle (Pseudocolor_fillMissingValues bands s)"
| "Style_fillMissingValues bands (RGBStyle s) = RGBStyle (RGB_fillMissingValues bands s)"

subsection \<open>Extents\<close>

text \<open>
  Modelled from the spec: \<open>containsExtent\<close>, \<open>getWidth\<close> and \<open>buffer\<close> of \<open>ol/extent.js\<close>,
  which is not among the sources. The spec has the cached batch reused when the frame
  extent is contained in the rendered extent (\<open>extent \<subseteq> renderedExtent\<close>), the query
  extent widened by world widths, and the viewport extent "buffered by one cell's
  maximum resolution dimension". An extent is \<open>[minX, minY, maxX, maxY]\<close>.
\<close>

fun containsExtent :: "Extent \<Rightarrow> Extent \<Rightarrow> bool" where
  "containsExtent (a0, a1, a2, a3) (b0, b1, b2, b3) = (a0 \<le> b0 \<and> b2 \<le> a2 \<and> a1 \<le> b1 \<and> b3 \<le> a3)"

fun getWidth :: "Extent \<Rightarrow> real" where
  "getWidth (a0, a1, a2, a3) = a2 - a0"

fun buffer :: "Extent \<Rightarrow> real \<Rightarrow> Extent" where
  "buffer (a0, a1, a2, a3) v = (a0 - v, a1 - v, a2 + v, a3 + v)"

subsection \<open>The objects a frame is prepared from\<close>

record Projection =
  pj_code :: string
  pj_canWrapX :: bool
  pj_extent :: Extent

text \<open>The frame state: the extent, the view state, the pixel ratio and the two view
  hints, which count the running animations and interactions.\<close>

record FrameState =
  fs_extent :: Extent
  fs_projection :: Projection
  fs_resolution :: real
  fs_pixelRatio :: real
  fs_animating :: nat
  fs_interacting :: nat

record CoverageLayer =
  cl_source :: CoverageSource
  cl_style :: "Style option"
  cl_stroke :: "real option"
  cl_updateWhileAnimating :: bool
  cl_updateWhileInteracting :: bool
  cl_revision :: nat

text \<open>
  The fields of a renderer; \<open>'rt\<close> is the spatial index and \<open>'rg\<close> the replay group.
  Each field is \<open>undefined\<close> until it is assigned. \<open>rn_indices\<close> is a field of the WebGL
  renderer only.
\<close>

record ('rt, 'rg) Renderer =
  rn_renderedChecksum :: "string option"
  rn_renderedSourceRevision :: "nat option"
  rn_buffer :: "real option"
  rn_coverageCache :: "'rt option"
  rn_numVertices :: "nat option"
  rn_indices :: "nat list"
  rn_renderedResolution :: "real option"
  rn_renderedRevision :: "nat option"
  rn_renderedExtent :: "Extent option"
  rn_replayGroup :: "'rg option"
  rn_replayGroupChanged :: bool

text \<open>
  The functions of the repository that \<open>prepareFrame\<close> calls and that are not among the
  sources: \<open>equivalent\<close> of \<open>ol/proj.js\<close>, on the codes of two projections;
  \<open>getTolerance\<close> and \<open>createGrid\<close> of \<open>ol/renderer/coverage.js\<close>; the query
  \<open>getInExtent\<close> of the spatial index followed by \<open>deflateCoordinates\<close> with the given
  stride; the construction of a replay group followed by \<open>renderCoverage\<close> and \<open>finish\<close>,
  for the canvas and for WebGL; and \<open>Tessellator\<close> on a cell shape. They are parameters.
\<close>

record ('rt, 'rg) Collaborators =
  co_strings :: Strings
  co_alignRasterBands :: "Band list \<Rightarrow> CoverageType option \<Rightarrow> Aligned"
  co_equivalent :: "string \<Rightarrow> string \<Rightarrow> bool"
  co_getTolerance :: "real \<Rightarrow> real \<Rightarrow> real"
  co_createGrid :: "Band \<Rightarrow> real list \<Rightarrow> CoverageType \<Rightarrow> string \<Rightarrow> Projection
                    \<Rightarrow> CoveragePattern option \<Rightarrow> 'rt"
  co_getInExtent :: "'rt \<Rightarrow> Extent \<Rightarrow> nat \<Rightarrow> real list"
  co_canvasReplayGroup :: "real \<Rightarrow> Extent \<Rightarrow> real \<Rightarrow> real \<Rightarrow> real list \<Rightarrow> nat \<Rightarrow> real option \<Rightarrow> 'rg"
  co_webglReplayGroup :: "real \<Rightarrow> Extent \<Rightarrow> real list \<Rightarrow> nat \<Rightarrow> nat list \<Rightarrow> 'rg"
  co_tessellate :: "real list \<Rightarrow> real list \<times> nat list"

text \<open>The calls a frame makes that the caches exist to avoid, in order.\<close>

datatype Call = GetStyledBand | CreateGrid | NewReplayGroup

text \<open>
  What a call of \<open>prepareFrame\<close> leaves: its result, the renderer, the style of the
  layer, the extent of the frame state, the replay groups whose deletion was
  scheduled in \<open>postRenderFunctions\<close>, and the calls made.
\<close>

record ('rt, 'rg) Outcome =
  oc_result :: bool
  oc_renderer :: "('rt, 'rg) Renderer"
  oc_style :: "Style option"
  oc_extent :: Extent
  oc_postRender :: "'rg list"
  oc_calls :: "Call list"

subsection \<open>The cell shape\<close>

text \<open>
  Modelled from the spec: \<open>deflateCoordinates\<close> and \<open>scale\<close> of \<open>ol/geom/flat\<close>, which
  are not among the sources; the spec has the custom shape as the "pattern's
  unit-square shape scaled by (rx,ry)". The rest is \<open>getCellCoordinates_\<close> of the canvas
  renderer as written. Reading \<open>pattern.shape\<close> of an \<open>undefined\<close> pattern throws.
\<close>

definition Canvas_getCellCoordinates ::
  "CoverageType \<Rightarrow> real \<times> real \<Rightarrow> CoveragePattern option \<Rightarrow> error + real list" where
  "Canvas_getCellCoordinates type resolution pattern =
     (let halfX = fst resolution / 2;
          halfY = snd resolution / 2
      in case type of
           HEXAGONAL \<Rightarrow>
             (let fourthY = halfY / 2
              in Inr [- halfX, - fourthY, 0, - halfY, halfX, - fourthY, halfX, fourthY,
                      0, halfY, - halfX, fourthY])
         | CUSTOM \<Rightarrow>
             (case pattern of
                None \<Rightarrow> Inl TypeError
              | Some pat \<Rightarrow>
                  Inr (concat (map (\<lambda>(x, y). [x * fst resolution, y * snd resolution]) (pat_shape pat))))
         | RECTANGULAR \<Rightarrow> Inr [- halfX, - halfY, halfX, - halfY, halfX, halfY, - halfX, halfY])"

text \<open>\<open>getCellCoordinates_\<close> of the WebGL renderer: the vertices and the indices.\<close>

definition WebGL_getCellCoordinates ::
  "(real list \<Rightarrow> real list \<times> nat list) \<Rightarrow> CoverageType \<Rightarrow> real \<times> real \<Rightarrow> CoveragePattern option
   \<Rightarrow> error + real list \<times> nat list" where
  "WebGL_getCellCoordinates tessellate type resolution pattern =
     (let halfX = fst resolution / 2;
          halfY = snd resolution / 2
      in case type of
           HEXAGONAL \<Rightarrow>
             (let fourthY = halfY / 2
              in Inr ([- halfX, - fourthY, 0, - halfY, halfX, - fourthY, halfX, fourthY,
                       0, halfY, - halfX, fourthY],
                      [0, 1, 2, 2, 3, 0, 0, 3, 5, 5, 3, 4]))
         | CUSTOM \<Rightarrow>
             (case pattern of
                None \<Rightarrow> Inl TypeError
              | Some pat \<Rightarrow>
                  Inr (tessellate
                         (concat (map (\<lambda>(x, y). [x * fst resolution, y * snd resolution]) (pat_shape pat)))))
         | RECTANGULAR \<Rightarrow>
             Inr ([- halfX, - halfY, halfX, - halfY, halfX, halfY, - halfX, halfY], [0, 1, 2, 2, 3, 0]))"


subsection \<open>\<open>prepareFrame\<close>\<close>

text \<open>
  The start of both \<open>prepareFrame\<close> methods, for a layer with a style: the checksum
  of the style is compared with the rendered one, and the missing bounds are filled
  when they differ. \<open>getChecksum\<close> may throw, and caches its string in the style.
\<close>

definition frame_style :: "Strings \<Rightarrow> ('rt, 'rg) Renderer \<Rightarrow> CoverageSource \<Rightarrow> Style \<Rightarrow> error + Style" where
  "frame_style S rn coverageSource style =
     (case Style_getChecksum S style of
        Inl e \<Rightarrow> Inl e
      | Inr (c, style1) \<Rightarrow>
          Inr (if rn_renderedChecksum rn \<noteq> Some c
               then Style_fillMissingValues (cs_bands coverageSource) style1
               else style1))"

text \<open>The test on the view hints: a hint is truthy when it is not 0.\<close>

definition update_paused :: "CoverageLayer \<Rightarrow> FrameState \<Rightarrow> bool" where
  "update_paused coverageLayer frameState =
     ((\<not> cl_updateWhileAnimating coverageLayer \<and> fs_animating frameState \<noteq> 0) \<or>
      (\<not> cl_updateWhileInteracting coverageLayer \<and> fs_interacting frameState \<noteq> 0))"

text \<open>
  The extent of the frame state after the canvas renderer has widened it, in place,
  for a source that wraps the world.
\<close>

definition wrapped_extent :: "CoverageSource \<Rightarrow> FrameState \<Rightarrow> Extent" where
  "wrapped_extent coverageSource frameState =
     (let extent = fs_extent frameState;
          projectionExtent = pj_extent (fs_projection frameState)
      in if cs_wrapX coverageSource \<and> pj_canWrapX (fs_projection frameState) \<and>
            \<not> containsExtent projectionExtent extent
         then (let worldWidth = getWidth projectionExtent;
                   gutter = max (getWidth extent / 2) worldWidth
               in case (extent, projectionExtent) of
                    ((e0, e1, e2, e3), (p0, p1, p2, p3)) \<Rightarrow> (p0 - gutter, e1, p2 + gutter, e3))
         else extent)"

text \<open>
  The test for reusing the cached batch, the same in both renderers. The two \<open>==\<close>
  compare a number with a number or \<open>undefined\<close>; \<open>containsExtent\<close> reads the
  components of the rendered extent and throws on \<open>undefined\<close>.
\<close>

definition batch_reusable :: "('rt, 'rg) Renderer \<Rightarrow> real \<Rightarrow> nat \<Rightarrow> Extent \<Rightarrow> error + bool" where
  "batch_reusable rn resolution coverageLayerRevision extent =
     (if rn_renderedResolution rn = Some resolution \<and>
         rn_renderedRevision rn = Some coverageLayerRevision
      then (case rn_renderedExtent rn of
              None \<Rightarrow> Inl TypeError
            | Some renderedExtent \<Rightarrow> Inr (containsExtent renderedExtent extent))
      else Inr False)"

text \<open>
  The block of the canvas renderer that recomputes the styled band and rebuilds the
  spatial index when the checksum of the style or the revision of the source has
  changed. It yields whether the frame goes on (\<open>getStyledBand\<close> did not return
  \<open>null\<close>), the renderer, the style and the calls made.
\<close>

definition Canvas_refresh ::
  "('rt, 'rg) Collaborators \<Rightarrow> ('rt, 'rg) Renderer \<Rightarrow> CoverageSource \<Rightarrow> Projection \<Rightarrow> CoverageType
   \<Rightarrow> Style \<Rightarrow> error + bool \<times> ('rt, 'rg) Renderer \<times> Style \<times> Call list" where
  "Canvas_refresh co rn coverageSource projection type style =
     (case Style_getChecksum (co_strings co) style of
        Inl e \<Rightarrow> Inl e
      | Inr (c, style1) \<Rightarrow>
          if rn_renderedChecksum rn \<noteq> Some c \<or>
             rn_renderedSourceRevision rn \<noteq> Some (cs_revision coverageSource)
          then (case getStyledBand (co_alignRasterBands co) coverageSource style1 (Fin 1) (Fin 0) of
                  Inl e \<Rightarrow> Inl e
                | Inr None \<Rightarrow> Inr (False, rn, style1, [GetStyledBand])
                | Inr (Some styledCoverage) \<Rightarrow>
                    (let pattern = cs_pattern coverageSource
                     in case Canvas_getCellCoordinates type (b_resolution styledCoverage) pattern of
                          Inl e \<Rightarrow> Inl e
                        | Inr cellCoords \<Rightarrow>
                            (let vertices = length cellCoords;
                                 rtree = co_createGrid co styledCoverage cellCoords type
                                           (cs_projection coverageSource) projection pattern
                             in case Style_getChecksum (co_strings co) style1 of
                                  Inl e \<Rightarrow> Inl e
                                | Inr (c2, style2) \<Rightarrow>
                                    Inr (True,
                                         rn\<lparr>rn_renderedChecksum := Some c2,
                                            rn_renderedSourceRevision := Some (cs_revision coverageSource),
                                            rn_buffer := Some (max (fst (b_resolution styledCoverage))
                                                                   (snd (b_resolution styledCoverage))),
                                            rn_coverageCache := Some rtree,
                                            rn_numVertices := Some vertices\<rparr>,
                                         style2, [GetStyledBand, CreateGrid]))))
          else Inr (True, rn, style1, []))"

text \<open>
  The rest of the canvas method: the query of the spatial index and the new replay
  group. \<open>coverageCache_\<close>, \<open>buffer_\<close> and \<open>numVertices_\<close> are only ever assigned together;
  the query throws when the spatial index is \<open>undefined\<close>.
\<close>

definition Canvas_replay ::
  "('rt, 'rg) Collaborators \<Rightarrow> ('rt, 'rg) Renderer \<Rightarrow> CoverageLayer \<Rightarrow> FrameState \<Rightarrow> Extent
   \<Rightarrow> CoverageType \<Rightarrow> error + bool \<times> ('rt, 'rg) Renderer \<times> Call list" where
  "Canvas_replay co rn coverageLayer frameState extent type =
     (case (rn_coverageCache rn, rn_buffer rn, rn_numVertices rn) of
        (Some coverageCache, Some buf, Some numVertices) \<Rightarrow>
          (let coverageSource = cl_source coverageLayer;
               projection = fs_projection frameState;
               resolution = fs_resolution frameState;
               pixelRatio = fs_pixelRatio frameState;
               bufferedExtent = buffer extent buf;
               flatCoverage = co_getInExtent co coverageCache bufferedExtent (numVertices + 4)
           in if flatCoverage = [] then Inr (False, rn, [])
              else (let strokeWidth =
                          (case cl_stroke coverageLayer of
                             Some w \<Rightarrow> w
                           | None \<Rightarrow>
                               if type \<noteq> RECTANGULAR \<or>
                                  \<not> co_equivalent co (cs_projection coverageSource) (pj_code projection)
                               then 1 else 0);
                        stroke = (if strokeWidth \<noteq> 0 then Some strokeWidth else None);
                        replayGroup = co_canvasReplayGroup co (co_getTolerance co resolution pixelRatio)
                                        extent resolution pixelRatio flatCoverage numVertices stroke
                    in Inr (True,
                            rn\<lparr>rn_renderedResolution := Some resolution,
                               rn_renderedRevision := Some (cl_revision coverageLayer),
                               rn_renderedExtent := Some extent,
                               rn_replayGroup := Some replayGroup,
                               rn_replayGroupChanged := True\<rparr>,
                            [NewReplayGroup])))
      | _ \<Rightarrow> Inl TypeError)"

text \<open>\<open>prepareFrame\<close> of the canvas renderer.\<close>

definition Canvas_prepareFrame ::
  "('rt, 'rg) Collaborators \<Rightarrow> ('rt, 'rg) Renderer \<Rightarrow> CoverageLayer \<Rightarrow> FrameState
   \<Rightarrow> error + ('rt, 'rg) Outcome" where
  "Canvas_prepareFrame co rn coverageLayer frameState =
     (let coverageSource = cl_source coverageLayer
      in case cl_style coverageLayer of
           None \<Rightarrow> Inr \<lparr>oc_result = False, oc_renderer = rn, oc_style = None,
                         oc_extent = fs_extent frameState, oc_postRender = [], oc_calls = []\<rparr>
         | Some style0 \<Rightarrow>
             (case frame_style (co_strings co) rn coverageSource style0 of
                Inl e \<Rightarrow> Inl e
              | Inr style \<Rightarrow>
                  if update_paused coverageLayer frameState
                  then Inr \<lparr>oc_result = True, oc_renderer = rn, oc_style = Some style,
                            oc_extent = fs_extent frameState, oc_postRender = [], oc_calls = []\<rparr>
                  else
                    (let extent = wrapped_extent coverageSource frameState
                     in case batch_reusable rn (fs_resolution frameState) (cl_revision coverageLayer) extent of
                          Inl e \<Rightarrow> Inl e
                        | Inr True \<Rightarrow>
                            Inr \<lparr>oc_result = True, oc_renderer = rn\<lparr>rn_replayGroupChanged := False\<rparr>,
                                 oc_style = Some style, oc_extent = extent, oc_postRender = [],
                                 oc_calls = []\<rparr>
                        | Inr False \<Rightarrow>
                            (let rn1 = rn\<lparr>rn_replayGroup := None\<rparr>;
                                 type = (case cs_type coverageSource of Some t \<Rightarrow> t | None \<Rightarrow> RECTANGULAR)
                             in case Canvas_refresh co rn1 coverageSource (fs_projection frameState) type style of
                                  Inl e \<Rightarrow> Inl e
                                | Inr (False, rn2, style2, calls) \<Rightarrow>
                                    Inr \<lparr>oc_result = False, oc_renderer = rn2, oc_style = Some style2,
                                         oc_extent = extent, oc_postRender = [], oc_calls = calls\<rparr>
                                | Inr (True, rn2, style2, calls) \<Rightarrow>
                                    (case Canvas_replay co rn2 coverageLayer frameState extent type of
                                       Inl e \<Rightarrow> Inl e
                                     | Inr (result, rn3, calls') \<Rightarrow>
                                         Inr \<lparr>oc_result = result, oc_renderer = rn3,
                                              oc_style = Some style2, oc_extent = extent,
                                              oc_postRender = [], oc_calls = calls @ calls'\<rparr>)))))"


text \<open>The same block of the WebGL renderer, which also keeps the indices of the cell.\<close>

definition WebGL_refresh ::
  "('rt, 'rg) Collaborators \<Rightarrow> ('rt, 'rg) Renderer \<Rightarrow> CoverageSource \<Rightarrow> Projection \<Rightarrow> CoverageType
   \<Rightarrow> Style \<Rightarrow> error + bool \<times> ('rt, 'rg) Renderer \<times> Style \<times> Call list" where
  "WebGL_refresh co rn coverageSource projection type style =
     (case Style_getChecksum (co_strings co) style of
        Inl e \<Rightarrow> Inl e
      | Inr (c, style1) \<Rightarrow>
          if rn_renderedChecksum rn \<noteq> Some c \<or>
             rn_renderedSourceRevision rn \<noteq> Some (cs_revision coverageSource)
          then (case getStyledBand (co_alignRasterBands co) coverageSource style1 (Fin 1) (Fin 0) of
                  Inl e \<Rightarrow> Inl e
                | Inr None \<Rightarrow> Inr (False, rn, style1, [GetStyledBand])
                | Inr (Some styledCoverage) \<Rightarrow>
                    (let pattern = cs_pattern coverageSource
                     in case WebGL_getCellCoordinates (co_tessellate co) type
                               (b_resolution styledCoverage) pattern of
                          Inl e \<Rightarrow> Inl e
                        | Inr (cell_vertices, cell_indices) \<Rightarrow>
                            (let vertices = length cell_vertices;
                                 rtree = co_createGrid co styledCoverage cell_vertices type
                                           (cs_projection coverageSource) projection pattern
                             in case Style_getChecksum (co_strings co) style1 of
                                  Inl e \<Rightarrow> Inl e
                                | Inr (c2, style2) \<Rightarrow>
                                    Inr (True,
                                         rn\<lparr>rn_renderedChecksum := Some c2,
                                            rn_renderedSourceRevision := Some (cs_revision coverageSource),
                                            rn_buffer := Some (max (fst (b_resolution styledCoverage))
                                                                   (snd (b_resolution styledCoverage))),
                                            rn_coverageCache := Some rtree,
                                            rn_numVertices := Some vertices,
                                            rn_indices := cell_indices\<rparr>,
                                         style2, [GetStyledBand, CreateGrid]))))
          else Inr (True, rn, style1, []))"

text \<open>
  The rest of the WebGL method: the deletion of the old replay group is scheduled,
  the spatial index is queried and the new replay group is built. It yields the
  result, the renderer, the replay groups scheduled for deletion and the calls made.
\<close>

definition WebGL_replay ::
  "('rt, 'rg) Collaborators \<Rightarrow> ('rt, 'rg) Renderer \<Rightarrow> CoverageLayer \<Rightarrow> FrameState \<Rightarrow> Extent
   \<Rightarrow> error + bool \<times> ('rt, 'rg) Renderer \<times> 'rg list \<times> Call list" where
  "WebGL_replay co rn coverageLayer frameState extent =
     (let postRender = (case rn_replayGroup rn of Some g \<Rightarrow> [g] | None \<Rightarrow> []);
          rn1 = rn\<lparr>rn_replayGroup := None\<rparr>
      in case (rn_coverageCache rn1, rn_buffer rn1, rn_numVertices rn1) of
           (Some coverageCache, Some buf, Some numVertices) \<Rightarrow>
             (let resolution = fs_resolution frameState;
                  pixelRatio = fs_pixelRatio frameState;
                  bufferedExtent = buffer extent buf;
                  flatCoverage = co_getInExtent co coverageCache bufferedExtent (numVertices + 4)
              in if flatCoverage = [] then Inr (False, rn1, postRender, [])
                 else (let replayGroup = co_webglReplayGroup co (co_getTolerance co resolution pixelRatio)
                                           extent flatCoverage numVertices (rn_indices rn1)
                       in Inr (True,
                               rn1\<lparr>rn_renderedResolution := Some resolution,
                                   rn_renderedRevision := Some (cl_revision coverageLayer),
                                   rn_renderedExtent := Some extent,
                                   rn_replayGroup := Some replayGroup\<rparr>,
                               postRender, [NewReplayGroup])))
         | _ \<Rightarrow> Inl TypeError)"

text \<open>\<open>prepareFrame\<close> of the WebGL renderer.\<close>

definition WebGL_prepareFrame ::
  "('rt, 'rg) Collaborators \<Rightarrow> ('rt, 'rg) Renderer \<Rightarrow> CoverageLayer \<Rightarrow> FrameState
   \<Rightarrow> error + ('rt, 'rg) Outcome" where
  "WebGL_prepareFrame co rn coverageLayer frameState =
     (let coverageSource = cl_source coverageLayer
      in case cl_style coverageLayer of
           None \<Rightarrow> Inr \<lparr>oc_result = False, oc_renderer = rn, oc_style = None,
                         oc_extent = fs_extent frameState, oc_postRender = [], oc_calls = []\<rparr>
         | Some style0 \<Rightarrow>
             (case frame_style (co_strings co) rn coverageSource style0 of
                Inl e \<Rightarrow> Inl e
              | Inr style \<Rightarrow>
                  if update_paused coverageLayer frameState
                  then Inr \<lparr>oc_result = True, oc_renderer = rn, oc_style = Some style,
                            oc_extent = fs_extent frameState, oc_postRender = [], oc_calls = []\<rparr>
                  else
                    (let extent = fs_extent frameState
                     in case batch_reusable rn (fs_resolution frameState) (cl_revision coverageLayer) extent of
                          Inl e \<Rightarrow> Inl e
                        | Inr True \<Rightarrow>
                            Inr \<lparr>oc_result = True, oc_renderer = rn\<lparr>rn_replayGroupChanged := False\<rparr>,
                                 oc_style = Some style, oc_extent = extent, oc_postRender = [],
                                 oc_calls = []\<rparr>
                        | Inr False \<Rightarrow>
                            (let type = (case cs_type coverageSource of Some t \<Rightarrow> t | None \<Rightarrow> RECTANGULAR)
                             in case WebGL_refresh co rn coverageSource (fs_projection frameState) type style of
                                  Inl e \<Rightarrow> Inl e
                                | Inr (False, rn2, style2, calls) \<Rightarrow>
                                    Inr \<lparr>oc_result = False, oc_renderer = rn2, oc_style = Some style2,
                                         oc_extent = extent, oc_postRender = [], oc_calls = calls\<rparr>
                                | Inr (True, rn2, style2, calls) \<Rightarrow>
                                    (case WebGL_replay co rn2 coverageLayer frameState extent of
                                       Inl e \<Rightarrow> Inl e
                                     | Inr (result, rn3, postRender, calls') \<Rightarrow>
                                         Inr \<lparr>oc_result = result, oc_renderer = rn3,
                                              oc_style = Some style2, oc_extent = extent,
                                              oc_postRender = postRender, oc_calls = calls @ calls'\<rparr>)))))"

section \<open>The layout of styled matrices\<close>

fun js_finite :: "jsnum \<Rightarrow> bool" where
  "js_finite (Fin a) = True"
| "js_finite a = False"

lemma Monochrome_loop_length:
  "length (Monochrome_loop mn rng nodata a b xs) = 4 * length xs"
  by (induction xs) (simp_all add: Monochrome_cell_def Let_def)


lemma Monochrome_loop_cells:
  "Monochrome_loop mn rng nodata a b xs = concat (map (Monochrome_cell mn rng nodata a b) xs)"
  by (induction xs) simp_all

lemma Monochrome_cell_length: "length (Monochrome_cell mn rng nodata a b x) = 4"
  by (simp add: Monochrome_cell_def Let_def)



lemma Monochrome_apply_length:
  "length (Monochrome_apply s matrix nodata a b) = 4 * length matrix"
  by (simp add: Monochrome_apply_def Let_def Monochrome_loop_length)

lemma Pseudocolor_loop_append:
  "Pseudocolor_loop ivs c mn mx nd a b (xs @ ys) =
   Pseudocolor_loop ivs c mn mx nd a b xs @ Pseudocolor_loop ivs c mn mx nd a b ys"
  by (induction xs) simp_all

lemma Pseudocolor_apply_append:
  "Pseudocolor_apply s (xs @ ys) nd a b = Pseudocolor_apply s xs nd a b @ Pseudocolor_apply s ys nd a b"
  by (simp add: Pseudocolor_apply_def Let_def Pseudocolor_loop_append)


lemma js_lt_total: "a \<noteq> NaN \<Longrightarrow> b \<noteq> NaN \<Longrightarrow> js_lt a b \<or> a = b \<or> js_lt b a"
  by (cases a; cases b) auto

lemma Pseudocolor_colour_length:
  "iv \<in> set ivs \<Longrightarrow> js_le x (fst (iv_higher iv)) \<Longrightarrow> length (Pseudocolor_colour c x ivs) = 3"
  by (induction ivs) (auto simp: Let_def)

lemma createIntervals_last:
  "createIntervals s mn mx \<noteq> [] \<and> fst (iv_higher (last (createIntervals s mn mx))) = mx"
  by (simp add: createIntervals_def Let_def split: prod.splits)

lemma Pseudocolor_cell_length:
  assumes "x \<noteq> NaN" "mx \<noteq> NaN"
  shows "length (Pseudocolor_cell (createIntervals s mn mx) c mn mx nd a b x) = 4"
proof (cases "js_lt x mn \<or> js_gt x mx")
  case True
  then show ?thesis by (simp add: Pseudocolor_cell_def Let_def)
next
  case False
  then have "js_le x mx" using assms js_lt_total[of x mx] by (auto simp: js_le_def js_gt_def)
  moreover have "last (createIntervals s mn mx) \<in> set (createIntervals s mn mx)"
    using createIntervals_last by simp
  ultimately have "length (Pseudocolor_colour c x (createIntervals s mn mx)) = 3"
    using createIntervals_last Pseudocolor_colour_length by metis
  then show ?thesis using False by (simp add: Pseudocolor_cell_def)
qed

lemma quads_take:
  assumes "\<forall>x \<in> set xs. length (f x) = 4" and "i < length xs"
  shows "take 4 (drop (4 * i) (concat (map f xs))) = f (xs ! i)"
  using assms
proof (induction xs arbitrary: i)
  case Nil
  then show ?case by simp
next
  case (Cons x xs)
  show ?case
  proof (cases i)
    case 0
    then show ?thesis using Cons.prems by simp
  next
    case (Suc j)
    with Cons.prems have j: "j < length xs" and all: "\<forall>x \<in> set xs. length (f x) = 4"
      by simp_all
    have idx: "4 * i = 4 + 4 * j" using Suc by simp
    show ?thesis unfolding idx using Cons.IH[OF all j] Suc Cons.prems(1)
      by simp
  qed
qed

lemma quads_length_set:
  assumes "\<forall>x \<in> set xs. length (f x) = 4"
  shows "length (concat (map f xs)) = 4 * length xs"
  using assms by (induction xs) simp_all

lemma Pseudocolor_loop_cells:
  "Pseudocolor_loop ivs c mn mx nd a b xs = concat (map (Pseudocolor_cell ivs c mn mx nd a b) xs)"
  by (induction xs) simp_all

lemma Monochrome_apply_take:
  assumes "i < length m"
  shows "take 4 (drop (4 * i) (Monochrome_apply s m nd a b)) = Monochrome_apply s [m ! i] nd a b"
  unfolding Monochrome_apply_def Let_def Monochrome_loop_cells
  using assms by (simp add: quads_take Monochrome_cell_length)

lemma Pseudocolor_apply_regular:
  assumes "p_max p \<noteq> Some NaN" and "\<forall>x \<in> set m. x \<noteq> NaN"
  shows "length (Pseudocolor_apply p m nd a b) = 4 * length m"
    and "i < length m \<Longrightarrow>
         take 4 (drop (4 * i) (Pseudocolor_apply p m nd a b)) = Pseudocolor_apply p [m ! i] nd a b"
proof -
  define mx where "mx = (case p_max p of Some a \<Rightarrow> a | None \<Rightarrow> NInf)"
  define mn where "mn = (case p_min p of Some a \<Rightarrow> a | None \<Rightarrow> PInf)"
  have mx: "mx \<noteq> NaN" using assms(1) by (auto simp: mx_def split: option.splits)
  let ?f = "Pseudocolor_cell (createIntervals p mn mx) (p_mode p = CATEGORIZED) mn mx nd a b"
  have all: "\<forall>x \<in> set m. length (?f x) = 4"
    using assms(2) mx by (simp add: Pseudocolor_cell_length)
  have eq: "Pseudocolor_apply p ys nd a b = concat (map ?f ys)" for ys
    by (simp add: Pseudocolor_apply_def Let_def Pseudocolor_loop_cells mx_def mn_def)
  show "length (Pseudocolor_apply p m nd a b) = 4 * length m"
    unfolding eq using all by (rule quads_length_set)
  show "take 4 (drop (4 * i) (Pseudocolor_apply p m nd a b)) = Pseudocolor_apply p [m ! i] nd a b"
    if "i < length m"
    unfolding eq using quads_take[OF all that] by simp
qed

lemma RGB_cell_length: "length (RGB_cell r ms nd a b i) = 4"
  by (simp add: RGB_cell_def Let_def)

lemma RGB_apply_cells:
  "RGB_apply r ms nds a b =
   concat (map (RGB_cell r (fst (RGB_channels r ms nds)) (snd (RGB_channels r ms nds)) a b)
             [0..<length (RGB_refMatrix (fst (RGB_channels r ms nds)))])"
  by (simp add: RGB_apply_def Let_def split: prod.splits)

lemma RGB_apply_length:
  "length (RGB_apply r ms nds a b) = 4 * length (RGB_refMatrix (fst (RGB_channels r ms nds)))"
  unfolding RGB_apply_cells by (subst quads_length_set) (simp_all add: RGB_cell_length)

lemma RGB_apply_take:
  assumes "i < length (RGB_refMatrix (fst (RGB_channels r ms nds)))"
  shows "take 4 (drop (4 * i) (RGB_apply r ms nds a b)) =
         RGB_cell r (fst (RGB_channels r ms nds)) (snd (RGB_channels r ms nds)) a b i"
  unfolding RGB_apply_cells using assms
  by (subst quads_take) (simp_all add: RGB_cell_length)



lemmas js_eval =
  js_sub_def js_gt_def js_le_def clamp_def lerp_def Math_max_def Math_min_def js_signed_inf_def
  js_index_def at_index_def opt_val_def

subsection \<open>Example inputs\<close>

text \<open>The band of the end-to-end scenario of the specification, and one style of each kind.\<close>

definition ex_matrix :: "jsnum list" where
  "ex_matrix = [Fin 1, Fin 2, Fin (- 9999), Fin 4]"

definition ex_nodata :: jsval where
  "ex_nodata = Num (Fin (- 9999))"

definition ex_mono :: Monochrome where
  "ex_mono = \<lparr>m_min = Some (Fin 1), m_max = Some (Fin 4), m_band = Some 0, m_checksum = None\<rparr>"

definition ex_pseudo :: Pseudocolor where
  "ex_pseudo = \<lparr>p_min = Some (Fin 1), p_max = Some (Fin 4), p_band = Some 0,
       p_startColor = RGBA (Fin 0) (Fin 0) (Fin 0) (Fin 1),
       p_endColor = RGBA (Fin 255) (Fin 255) (Fin 255) (Fin 1),
       p_mode = CATEGORIZED,
       p_breakpoints = [(3, RGBA (Fin 0) (Fin 0) (Fin 255) (Fin 1)), (2, RGBA (Fin 255) (Fin 0) (Fin 0) (Fin 1))],
       p_checksum = None\<rparr>"

definition ex_rgb :: RGB where
  "ex_rgb = \<lparr>r_red = ex_mono, r_green = ex_mono\<lparr>m_band := Some 1\<rparr>,
             r_blue = ex_mono\<lparr>m_band := None\<rparr>\<rparr>"

lemmas ex_defs = ex_matrix_def ex_nodata_def ex_mono_def ex_pseudo_def ex_rgb_def

subsection \<open>The alpha convention\<close>



subsection \<open>Four values per cell\<close>

text \<open>
  C10. The array returned by \<open>apply\<close> has four values for each cell, in the order of
  the cells: the four values at \<open>4 i\<close> are those \<open>apply\<close> returns for the matrix of the
  one cell \<open>i\<close>. This holds for Monochrome, for Pseudocolor with a defined
  \<open>min <= max\<close> on a matrix of finite numbers, and for RGB, where the cells are those of
  the first channel matrix that is present and the four values at \<open>4 i\<close> are those of
  round \<open>i\<close> of its loop.
\<close>

theorem apply_layout:
  "length (Monochrome_apply s m nd a b) = 4 * length m
   \<and> (\<forall>i < length m. take 4 (drop (4 * i) (Monochrome_apply s m nd a b)) = Monochrome_apply s [m ! i] nd a b)
   \<and> (p_min p = Some lo \<and> p_max p = Some hi \<and> js_le lo hi \<and> (\<forall>x \<in> set m. js_finite x) \<longrightarrow>
        length (Pseudocolor_apply p m nd a b) = 4 * length m
        \<and> (\<forall>i < length m. take 4 (drop (4 * i) (Pseudocolor_apply p m nd a b)) =
              Pseudocolor_apply p [m ! i] nd a b))
   \<and> length (RGB_apply r ms nds a b) = 4 * length (RGB_refMatrix (fst (RGB_channels r ms nds)))
   \<and> (\<forall>i < length (RGB_refMatrix (fst (RGB_channels r ms nds))).
        take 4 (drop (4 * i) (RGB_apply r ms nds a b)) =
          RGB_cell r (fst (RGB_channels r ms nds)) (snd (RGB_channels r ms nds)) a b i
        \<and> length (RGB_cell r (fst (RGB_channels r ms nds)) (snd (RGB_channels r ms nds)) a b i) = 4)"
proof -
  have pseudo: "length (Pseudocolor_apply p m nd a b) = 4 * length m
        \<and> (\<forall>i < length m. take 4 (drop (4 * i) (Pseudocolor_apply p m nd a b)) =
              Pseudocolor_apply p [m ! i] nd a b)"
    if h: "p_min p = Some lo \<and> p_max p = Some hi \<and> js_le lo hi \<and> (\<forall>x \<in> set m. js_finite x)"
  proof -
    from h have mx: "p_max p \<noteq> Some NaN" by (auto simp: js_le_def)
    have fin: "\<forall>x \<in> set m. x \<noteq> NaN" using h by auto
    show ?thesis using Pseudocolor_apply_regular[OF mx fin] by blast
  qed
  show ?thesis
    using pseudo
    by (simp add: Monochrome_apply_length Monochrome_apply_take RGB_apply_length RGB_apply_take
        RGB_cell_length)
qed

theorem apply_layout_witness:
  "p_min ex_pseudo = Some (Fin 1) \<and> p_max ex_pseudo = Some (Fin 4) \<and> js_le (Fin 1) (Fin 4)
   \<and> list_all js_finite ex_matrix \<and> (3 :: nat) < length ex_matrix
   \<and> length (Pseudocolor_apply ex_pseudo ex_matrix ex_nodata (Fin 1) (Fin 0)) = 16
   \<and> take 4 (drop 12 (Pseudocolor_apply ex_pseudo ex_matrix ex_nodata (Fin 1) (Fin 0)))
       = [Fin 0, Fin 0, Fin 255, Fin 1]
   \<and> take 4 (drop 4 (Monochrome_apply ex_mono ex_matrix ex_nodata (Fin 1) (Fin 0)))
       = [Fin 85, Fin 85, Fin 85, Fin 1]
   \<and> RGB_refMatrix (fst (RGB_channels ex_rgb [Some [Fin 5, Fin 7], Some [Fin 5, Fin 8]]
        [Num (Fin 5), Num (Fin 5)])) = [Fin 5, Fin 7]
   \<and> length (RGB_apply ex_rgb [Some [Fin 5, Fin 7], Some [Fin 5, Fin 8]] [Num (Fin 5), Num (Fin 5)]
        (Fin 1) (Fin 0)) = 8
   \<and> take 4 (drop 4 (RGB_apply ex_rgb [Some [Fin 5, Fin 7], Some [Fin 5, Fin 8]]
        [Num (Fin 5), Num (Fin 5)] (Fin 1) (Fin 0))) = [Fin 255, Fin 255, Fin 0, Fin 1]"
proof -
  note t = apply_layout[where s = ex_mono and m = ex_matrix and nd = ex_nodata
      and a = "Fin 1" and b = "Fin 0" and p = ex_pseudo and lo = "Fin 1" and hi = "Fin 4"
      and r = ex_rgb and ms = "[Some [Fin 5, Fin 7], Some [Fin 5, Fin 8]]"
      and nds = "[Num (Fin 5), Num (Fin 5)]"]
  let ?ch = "RGB_channels ex_rgb [Some [Fin 5, Fin 7], Some [Fin 5, Fin 8]] [Num (Fin 5), Num (Fin 5)]"
  have ch: "?ch = ([Some [Fin 5, Fin 7], Some [Fin 5, Fin 8], None], [Num (Fin 5), Num (Fin 5), Undefined])"
    by (simp add: RGB_channels_def RGB_pad_def RGB_getBandIndex_def splice_in_def ex_defs)
  have refm: "RGB_refMatrix (fst ?ch) = [Fin 5, Fin 7]"
    unfolding ch by (simp add: RGB_refMatrix_def matrix_at_def)
  have rl: "length (RGB_apply ex_rgb [Some [Fin 5, Fin 7], Some [Fin 5, Fin 8]] [Num (Fin 5), Num (Fin 5)]
        (Fin 1) (Fin 0)) = 4 * length (RGB_refMatrix (fst ?ch))"
    using t by blast
  have r1: "(1 :: nat) < length (RGB_refMatrix (fst ?ch))" unfolding refm by simp
  have "take 4 (drop (4 * 1) (RGB_apply ex_rgb [Some [Fin 5, Fin 7], Some [Fin 5, Fin 8]]
        [Num (Fin 5), Num (Fin 5)] (Fin 1) (Fin 0))) = RGB_cell ex_rgb (fst ?ch) (snd ?ch) (Fin 1) (Fin 0) 1"
    using t r1 by blast
  then have rq: "take 4 (drop 4 (RGB_apply ex_rgb [Some [Fin 5, Fin 7], Some [Fin 5, Fin 8]]
        [Num (Fin 5), Num (Fin 5)] (Fin 1) (Fin 0))) = [Fin 255, Fin 255, Fin 0, Fin 1]"
    unfolding ch
    by (simp add: RGB_cell_def RGB_lerp_def RGB_isNodata_def matrix_at_def nodata_at_def ex_defs
        Let_def js_eval)
  have h: "p_min ex_pseudo = Some (Fin 1) \<and> p_max ex_pseudo = Some (Fin 4) \<and> js_le (Fin 1) (Fin 4)
      \<and> (\<forall>x \<in> set ex_matrix. js_finite x)"
    by (simp add: ex_defs js_le_def)
  have len: "(1 :: nat) < length ex_matrix" and len3: "(3 :: nat) < length ex_matrix"
    by (simp_all add: ex_matrix_def)
  have l: "length (Pseudocolor_apply ex_pseudo ex_matrix ex_nodata (Fin 1) (Fin 0)) = 4 * length ex_matrix"
    using t h by blast
  have q: "take 4 (drop (4 * 3) (Pseudocolor_apply ex_pseudo ex_matrix ex_nodata (Fin 1) (Fin 0)))
      = Pseudocolor_apply ex_pseudo [ex_matrix ! 3] ex_nodata (Fin 1) (Fin 0)"
    using t h len3 by blast
  have qm: "take 4 (drop (4 * 1) (Monochrome_apply ex_mono ex_matrix ex_nodata (Fin 1) (Fin 0)))
      = Monochrome_apply ex_mono [ex_matrix ! 1] ex_nodata (Fin 1) (Fin 0)"
    using t len by blast
  have e: "Pseudocolor_apply ex_pseudo [ex_matrix ! 3] ex_nodata (Fin 1) (Fin 0)
      = [Fin 0, Fin 0, Fin 255, Fin 1]"
    by (simp add: ex_defs Pseudocolor_apply_def Pseudocolor_cell_def createIntervals_def stableSort_def
        Let_def js_eval)
  have em: "Monochrome_apply ex_mono [ex_matrix ! 1] ex_nodata (Fin 1) (Fin 0)
      = [Fin 85, Fin 85, Fin 85, Fin 1]"
    by (simp add: ex_defs Monochrome_apply_def Monochrome_cell_def Let_def js_eval)
  show ?thesis using h len3 l q qm e em refm rl rq by (simp add: ex_matrix_def list_all_iff)
qed

section \<open>Pseudocolor: cells outside the bounds\<close>

lemma js_le_gt_not_lt: "js_le mn mx \<Longrightarrow> js_gt x mx \<Longrightarrow> \<not> js_lt x mn"
  by (cases mn; cases mx; cases x) (auto simp: js_le_def js_gt_def)

lemma Pseudocolor_apply_below:
  assumes "p_min p = Some mn" and "js_lt x mn"
  shows "Pseudocolor_apply p [x] nd a b =
         [Fin 0, Fin 0, Fin 0, if strict_eq (Num x) nd then b else a]"
  using assms by (simp add: Pseudocolor_apply_def Pseudocolor_cell_def Let_def)

lemma Pseudocolor_apply_above:
  assumes "p_min p = Some mn" and "p_max p = Some mx" and "js_gt x mx" and "\<not> js_lt x mn"
  shows "Pseudocolor_apply p [x] nd a b =
         [Fin 255, Fin 255, Fin 255, if strict_eq (Num x) nd then b else a]"
  using assms by (simp add: Pseudocolor_apply_def Pseudocolor_cell_def Let_def)

lemma Pseudocolor_apply_cell:
  "Pseudocolor_apply p (pre @ x # post) nd a b =
     Pseudocolor_apply p pre nd a b @ Pseudocolor_apply p [x] nd a b @ Pseudocolor_apply p post nd a b"
  using Pseudocolor_apply_append[of p pre "x # post" nd a b]
        Pseudocolor_apply_append[of p "[x]" post nd a b] by simp

definition ex_inverted :: Pseudocolor where
  "ex_inverted = ex_pseudo\<lparr>p_min := Some (Fin 10), p_max := Some (Fin 5)\<rparr>"

text \<open>
  A style whose minimum lies above its maximum: the cell 7 is above the maximum 5 and
  below the minimum 10, and \<open>apply\<close> writes black for it, since the test
  \<open>matrix[i] < min\<close> comes first.
\<close>

theorem clamp_white_counterexample:
  "p_min ex_inverted = Some (Fin 10) \<and> p_max ex_inverted = Some (Fin 5)
   \<and> js_gt (Fin 7) (Fin 5)
   \<and> Pseudocolor_apply ex_inverted [Fin 7] ex_nodata (Fin 1) (Fin 0) = [Fin 0, Fin 0, Fin 0, Fin 1]
   \<and> take 3 (Pseudocolor_apply ex_inverted [Fin 7] ex_nodata (Fin 1) (Fin 0))
       \<noteq> [Fin 255, Fin 255, Fin 255]"
  by (simp add: ex_inverted_def ex_defs Pseudocolor_apply_def Pseudocolor_cell_def Let_def js_eval)

text \<open>
  C6. For a Pseudocolor style with defined \<open>min\<close> and \<open>max\<close>: a cell strictly
  below \<open>min\<close> is written as \<open>(0, 0, 0)\<close>; a cell strictly above \<open>max\<close> that is not
  strictly below \<open>min\<close>, in particular any cell above \<open>max\<close> when \<open>min <= max\<close>, is
  written as \<open>(255, 255, 255)\<close>; whatever the start and end colours and the breakpoints
  are. The values are written after those of the cells before and followed by the
  alpha value of the cell.
\<close>

theorem clamp_black_white:
  "p_min p = Some mn \<and> p_max p = Some mx \<longrightarrow>
     (js_lt x mn \<longrightarrow>
        Pseudocolor_apply p (pre @ x # post) nd a b =
          Pseudocolor_apply p pre nd a b
          @ [Fin 0, Fin 0, Fin 0, if strict_eq (Num x) nd then b else a]
          @ Pseudocolor_apply p post nd a b)
     \<and> (js_gt x mx \<and> (\<not> js_lt x mn \<or> js_le mn mx) \<longrightarrow>
        Pseudocolor_apply p (pre @ x # post) nd a b =
          Pseudocolor_apply p pre nd a b
          @ [Fin 255, Fin 255, Fin 255, if strict_eq (Num x) nd then b else a]
          @ Pseudocolor_apply p post nd a b)"
proof (intro impI conjI)
  assume h: "p_min p = Some mn \<and> p_max p = Some mx"
  { assume "js_lt x mn"
    then show "Pseudocolor_apply p (pre @ x # post) nd a b =
          Pseudocolor_apply p pre nd a b
          @ [Fin 0, Fin 0, Fin 0, if strict_eq (Num x) nd then b else a]
          @ Pseudocolor_apply p post nd a b"
      using h Pseudocolor_apply_below[of p mn x nd a b] by (simp add: Pseudocolor_apply_cell) }
  { assume g: "js_gt x mx \<and> (\<not> js_lt x mn \<or> js_le mn mx)"
    then have "\<not> js_lt x mn" using js_le_gt_not_lt by blast
    then show "Pseudocolor_apply p (pre @ x # post) nd a b =
          Pseudocolor_apply p pre nd a b
          @ [Fin 255, Fin 255, Fin 255, if strict_eq (Num x) nd then b else a]
          @ Pseudocolor_apply p post nd a b"
      using h g Pseudocolor_apply_above[of p mn mx x nd a b] by (simp add: Pseudocolor_apply_cell) }
qed

theorem clamp_black_white_witness:
  "p_min ex_pseudo = Some (Fin 1) \<and> p_max ex_pseudo = Some (Fin 4)
   \<and> js_lt (Fin (- 9999)) (Fin 1) \<and> js_gt (Fin 9) (Fin 4) \<and> js_le (Fin 1) (Fin 4)
   \<and> Pseudocolor_apply ex_pseudo [Fin (- 9999)] ex_nodata (Fin 1) (Fin 0) = [Fin 0, Fin 0, Fin 0, Fin 0]
   \<and> Pseudocolor_apply ex_pseudo [Fin 9] ex_nodata (Fin 1) (Fin 0) = [Fin 255, Fin 255, Fin 255, Fin 1]"
proof -
  have h: "p_min ex_pseudo = Some (Fin 1) \<and> p_max ex_pseudo = Some (Fin 4)"
    by (simp add: ex_defs)
  have lo: "js_lt (Fin (- 9999)) (Fin 1)" and hi: "js_gt (Fin 9) (Fin 4)" and le: "js_le (Fin 1) (Fin 4)"
    by (simp_all add: js_eval)
  have e: "Pseudocolor_apply ex_pseudo [] ex_nodata (Fin 1) (Fin 0) = []"
    by (simp add: Pseudocolor_apply_def Let_def)
  have "Pseudocolor_apply ex_pseudo ([] @ Fin (- 9999) # []) ex_nodata (Fin 1) (Fin 0) =
          Pseudocolor_apply ex_pseudo [] ex_nodata (Fin 1) (Fin 0)
          @ [Fin 0, Fin 0, Fin 0, if strict_eq (Num (Fin (- 9999))) ex_nodata then Fin 0 else Fin 1]
          @ Pseudocolor_apply ex_pseudo [] ex_nodata (Fin 1) (Fin 0)"
    using clamp_black_white[where p = ex_pseudo and mn = "Fin 1" and mx = "Fin 4"
        and x = "Fin (- 9999)" and pre = "[]" and post = "[]" and nd = ex_nodata
        and a = "Fin 1" and b = "Fin 0"] h lo by blast
  then have b: "Pseudocolor_apply ex_pseudo [Fin (- 9999)] ex_nodata (Fin 1) (Fin 0)
      = [Fin 0, Fin 0, Fin 0, Fin 0]"
    using e by (simp add: ex_nodata_def)
  have "Pseudocolor_apply ex_pseudo ([] @ Fin 9 # []) ex_nodata (Fin 1) (Fin 0) =
          Pseudocolor_apply ex_pseudo [] ex_nodata (Fin 1) (Fin 0)
          @ [Fin 255, Fin 255, Fin 255, if strict_eq (Num (Fin 9)) ex_nodata then Fin 0 else Fin 1]
          @ Pseudocolor_apply ex_pseudo [] ex_nodata (Fin 1) (Fin 0)"
    using clamp_black_white[where p = ex_pseudo and mn = "Fin 1" and mx = "Fin 4"
        and x = "Fin 9" and pre = "[]" and post = "[]" and nd = ex_nodata
        and a = "Fin 1" and b = "Fin 0"] h hi le by blast
  then have w: "Pseudocolor_apply ex_pseudo [Fin 9] ex_nodata (Fin 1) (Fin 0)
      = [Fin 255, Fin 255, Fin 255, Fin 1]"
    using e by (simp add: ex_nodata_def)
  show ?thesis using h lo hi le b w by simp
qed

section \<open>Pseudocolor: the order of the breakpoints\<close>

lemma stableSort_idem: "stableSort (stableSort bps) = stableSort bps"
  by (simp add: stableSort_def sort_key_id_if_sorted)

lemma stableSort_Nil_iff: "stableSort bps = [] \<longleftrightarrow> bps = []"
  by (metis stableSort_def length_sort list.size(3) length_0_conv)

lemma createIntervals_sorted_input:
  "createIntervals (p\<lparr>p_breakpoints := stableSort bps\<rparr>) mn mx =
   createIntervals (p\<lparr>p_breakpoints := bps\<rparr>) mn mx"
  by (simp add: createIntervals_def Let_def stableSort_idem stableSort_Nil_iff)

lemma stableSort_perm:
  assumes "mset bps' = mset bps" and "distinct (map fst bps)"
  shows "stableSort bps' = stableSort bps"
proof -
  have sets: "set bps' = set bps" using assms(1) by (rule mset_eq_setD)
  have m: "mset (map fst bps') = mset (map fst bps)" using assms(1) by (metis mset_map)
  have d': "distinct (map fst bps')" using m assms(2) by (metis mset_eq_imp_distinct_iff)
  have inj: "inj_on fst (set (sort_key fst bps') \<union> set (sort_key fst bps))"
    using assms(2) sets by (simp add: distinct_map)
  have "map fst (sort_key fst bps') = map fst (sort_key fst bps)"
  proof (rule sorted_distinct_set_unique)
    show "sorted (map fst (sort_key fst bps'))" "sorted (map fst (sort_key fst bps))" by simp_all
    show "distinct (map fst (sort_key fst bps'))" using d'
      by (metis distinct_map distinct_sort set_sort)
    show "distinct (map fst (sort_key fst bps))" using assms(2)
      by (metis distinct_map distinct_sort set_sort)
    show "set (map fst (sort_key fst bps')) = set (map fst (sort_key fst bps))"
      using sets by simp
  qed
  then show ?thesis unfolding stableSort_def using inj by (simp add: inj_on_map_eq_map)
qed

text \<open>For the proofs: the breakpoints strictly between the bounds, and the intervals
  and the last \<open>prev\<close> that the loop of \<open>createIntervals_\<close> builds from them.\<close>

definition inside :: "jsnum \<Rightarrow> jsnum \<Rightarrow> real \<times> Color \<Rightarrow> bool" where
  "inside mn mx p = (js_gt (Fin (fst p)) mn \<and> js_lt (Fin (fst p)) mx)"

fun chain :: "jsnum \<times> Color \<Rightarrow> (real \<times> Color) list \<Rightarrow> PseudocolorInterval list" where
  "chain prev [] = []"
| "chain prev (p # ps) =
     \<lparr>iv_lower = prev, iv_higher = (Fin (fst p), snd p), iv_range = js_sub (Fin (fst p)) (fst prev)\<rparr>
     # chain (Fin (fst p), snd p) ps"

fun chain_end :: "jsnum \<times> Color \<Rightarrow> (real \<times> Color) list \<Rightarrow> jsnum \<times> Color" where
  "chain_end prev [] = prev"
| "chain_end prev (p # ps) = chain_end (Fin (fst p), snd p) ps"

lemma createIntervals_loop_chain:
  "createIntervals_loop mn mx ivs prev ps =
   (ivs @ chain prev (filter (inside mn mx) ps), chain_end prev (filter (inside mn mx) ps))"
  by (induction ps arbitrary: ivs prev) (simp_all add: inside_def)

lemma chain_bounds:
  "map (fst \<circ> iv_higher) (chain prev qs) = map (Fin \<circ> fst) qs
   \<and> map (fst \<circ> iv_lower) (chain prev qs) @ [fst (chain_end prev qs)] = fst prev # map (Fin \<circ> fst) qs"
  by (induction qs arbitrary: prev) simp_all

lemma createIntervals_bounds:
  "\<exists>vs. map (fst \<circ> iv_higher) (createIntervals p mn mx) = map Fin vs @ [mx]
      \<and> map (fst \<circ> iv_lower) (createIntervals p mn mx) = mn # map Fin vs
      \<and> sorted vs
      \<and> (\<forall>v \<in> set vs. js_lt mn (Fin v) \<and> js_lt (Fin v) mx)"
proof -
  let ?ps = "stableSort (p_breakpoints p)"
  let ?vs = "map fst (filter (inside mn mx) ?ps)"
  let ?qs = "filter (inside mn mx) ?ps"
  let ?r = "(chain (mn, p_startColor p) ?qs, chain_end (mn, p_startColor p) ?qs)"
  have ci: "createIntervals p mn mx =
      fst ?r @ [\<lparr>iv_lower = snd ?r, iv_higher = (mx, p_endColor p), iv_range = js_sub mx (fst (snd ?r))\<rparr>]"
  proof (cases "p_breakpoints p = []")
    case True
    then show ?thesis by (simp add: createIntervals_def Let_def stableSort_def)
  next
    case False
    then show ?thesis by (simp add: createIntervals_def Let_def createIntervals_loop_chain)
  qed
  note b = chain_bounds[of "(mn, p_startColor p)" ?qs]
  have h: "map (fst \<circ> iv_higher) (createIntervals p mn mx) = map Fin ?vs @ [mx]"
    unfolding ci using b by simp
  have l: "map (fst \<circ> iv_lower) (createIntervals p mn mx) = mn # map Fin ?vs"
    unfolding ci using b by simp
  have s: "sorted ?vs"
    using sorted_filter[of fst ?ps "inside mn mx"] by (simp add: stableSort_def)
  have i: "\<forall>v \<in> set ?vs. js_lt mn (Fin v) \<and> js_lt (Fin v) mx"
    by (auto simp: inside_def js_gt_def)
  show ?thesis
    by (rule exI[of _ ?vs], intro conjI, rule h, rule l, rule s, rule i)
qed


lemma Pseudocolor_apply_cong:
  assumes "p_min p1 = p_min p2" and "p_max p1 = p_max p2" and "p_mode p1 = p_mode p2"
    and "\<And>mn mx. createIntervals p1 mn mx = createIntervals p2 mn mx"
  shows "Pseudocolor_apply p1 m nd a b = Pseudocolor_apply p2 m nd a b"
  unfolding Pseudocolor_apply_def assms ..

lemma createIntervals_perm:
  assumes "mset bps' = mset bps" and "distinct (map fst bps)"
  shows "createIntervals (p\<lparr>p_breakpoints := bps'\<rparr>) mn mx =
         createIntervals (p\<lparr>p_breakpoints := bps\<rparr>) mn mx"
proof -
  have "bps' = [] \<longleftrightarrow> bps = []" using assms(1) by (metis mset_zero_iff)
  then show ?thesis using stableSort_perm[OF assms]
    by (simp add: createIntervals_def Let_def)
qed

text \<open>
  C7. The output of \<open>apply\<close> for breakpoints in any order is the output for the same
  breakpoints sorted ascending by value beforehand; two orders of the same breakpoints
  with pairwise different values give the same output; and the intervals are built in
  ascending order: the upper bounds are breakpoint values \<open>v1 <= ... <= vk\<close>, all
  strictly between \<open>min\<close> and \<open>max\<close>, followed by \<open>max\<close>, and the lower bounds are \<open>min\<close>
  followed by the same values.
\<close>

theorem breakpoint_order:
  "Pseudocolor_apply (p\<lparr>p_breakpoints := bps\<rparr>) m nd a b =
     Pseudocolor_apply (p\<lparr>p_breakpoints := stableSort bps\<rparr>) m nd a b
   \<and> (mset bps' = mset bps \<and> distinct (map fst bps) \<longrightarrow>
        Pseudocolor_apply (p\<lparr>p_breakpoints := bps'\<rparr>) m nd a b =
          Pseudocolor_apply (p\<lparr>p_breakpoints := bps\<rparr>) m nd a b)
   \<and> (\<exists>vs. map (fst \<circ> iv_higher) (createIntervals (p\<lparr>p_breakpoints := bps\<rparr>) mn mx) = map Fin vs @ [mx]
         \<and> map (fst \<circ> iv_lower) (createIntervals (p\<lparr>p_breakpoints := bps\<rparr>) mn mx) = mn # map Fin vs
         \<and> sorted vs
         \<and> (\<forall>v \<in> set vs. js_lt mn (Fin v) \<and> js_lt (Fin v) mx))"
proof (intro conjI impI)
  show "Pseudocolor_apply (p\<lparr>p_breakpoints := bps\<rparr>) m nd a b =
     Pseudocolor_apply (p\<lparr>p_breakpoints := stableSort bps\<rparr>) m nd a b"
    by (rule Pseudocolor_apply_cong) (simp_all add: createIntervals_sorted_input)
next
  assume h: "mset bps' = mset bps \<and> distinct (map fst bps)"
  show "Pseudocolor_apply (p\<lparr>p_breakpoints := bps'\<rparr>) m nd a b =
          Pseudocolor_apply (p\<lparr>p_breakpoints := bps\<rparr>) m nd a b"
    using h by (intro Pseudocolor_apply_cong) (simp_all add: createIntervals_perm[of bps' bps])
next
  show "\<exists>vs. map (fst \<circ> iv_higher) (createIntervals (p\<lparr>p_breakpoints := bps\<rparr>) mn mx) = map Fin vs @ [mx]
         \<and> map (fst \<circ> iv_lower) (createIntervals (p\<lparr>p_breakpoints := bps\<rparr>) mn mx) = mn # map Fin vs
         \<and> sorted vs
         \<and> (\<forall>v \<in> set vs. js_lt mn (Fin v) \<and> js_lt (Fin v) mx)"
    by (rule createIntervals_bounds)
qed

definition ex_red :: Color where "ex_red = RGBA (Fin 255) (Fin 0) (Fin 0) (Fin 1)"
definition ex_blue :: Color where "ex_blue = RGBA (Fin 0) (Fin 0) (Fin 255) (Fin 1)"



theorem breakpoint_order_witness:
  "mset [(2, ex_red), (3, ex_blue)] = mset [(3, ex_blue), (2 :: real, ex_red)]
   \<and> distinct (map fst [(3, ex_blue), (2 :: real, ex_red)])
   \<and> stableSort [(3, ex_blue), (2, ex_red)] = [(2, ex_red), (3, ex_blue)]
   \<and> Pseudocolor_apply (ex_pseudo\<lparr>p_breakpoints := [(3, ex_blue), (2, ex_red)]\<rparr>) ex_matrix ex_nodata (Fin 1) (Fin 0)
       = Pseudocolor_apply (ex_pseudo\<lparr>p_breakpoints := [(2, ex_red), (3, ex_blue)]\<rparr>) ex_matrix ex_nodata (Fin 1) (Fin 0)
   \<and> map (fst \<circ> iv_higher) (createIntervals (ex_pseudo\<lparr>p_breakpoints := [(3, ex_blue), (2, ex_red)]\<rparr>) (Fin 1) (Fin 4))
       = [Fin 2, Fin 3, Fin 4]"
proof -
  note t = breakpoint_order[where p = ex_pseudo and bps = "[(3, ex_blue), (2, ex_red)]"
      and bps' = "[(2, ex_red), (3, ex_blue)]" and m = ex_matrix and nd = ex_nodata
      and a = "Fin 1" and b = "Fin 0" and mn = "Fin 1" and mx = "Fin 4"]
  have ms: "mset [(2, ex_red), (3, ex_blue)] = mset [(3, ex_blue), (2 :: real, ex_red)]"
    by (simp add: add.commute)
  have d: "distinct (map fst [(3, ex_blue), (2 :: real, ex_red)])" by simp
  have srt: "stableSort [(3, ex_blue), (2, ex_red)] = [(2, ex_red), (3, ex_blue)]"
    by (simp add: stableSort_def)
  have eq: "Pseudocolor_apply (ex_pseudo\<lparr>p_breakpoints := [(2, ex_red), (3, ex_blue)]\<rparr>) ex_matrix ex_nodata (Fin 1) (Fin 0)
       = Pseudocolor_apply (ex_pseudo\<lparr>p_breakpoints := [(3, ex_blue), (2, ex_red)]\<rparr>) ex_matrix ex_nodata (Fin 1) (Fin 0)"
    using conjunct1[OF conjunct2[OF t]] ms d by simp
  obtain vs where vs: "map (fst \<circ> iv_higher) (createIntervals (ex_pseudo\<lparr>p_breakpoints := [(3, ex_blue), (2, ex_red)]\<rparr>) (Fin 1) (Fin 4))
       = map Fin vs @ [Fin 4]" and "sorted vs"
    using conjunct2[OF conjunct2[OF t]] by auto
  have bounds: "map (fst \<circ> iv_higher) (createIntervals (ex_pseudo\<lparr>p_breakpoints := [(3, ex_blue), (2, ex_red)]\<rparr>) (Fin 1) (Fin 4))
       = [Fin 2, Fin 3, Fin 4]"
    by (simp add: createIntervals_def stableSort_def Let_def js_eval)
  show ?thesis using ms d srt eq bounds by simp
qed

section \<open>Filling missing bounds\<close>

text \<open>A band of two cells, 5 and 10, with no nodata value.\<close>

definition ex_band :: Band where
  "ex_band = Band_new \<lparr>o_binary = False, o_extent = (0, 0, 2, 1), o_nodata = Undefined,
      o_matrix = [Fin 5, Fin 10], o_origin = None, o_resolution = (1, 1), o_stride = 2,
      o_type = FLOAT32\<rparr>"

lemma ex_band_statistics:
  "b_statistics ex_band = \<lparr>stat_min = Some (Fin 5), stat_max = Some (Fin 10), stat_sum = Some (Fin 15),
     stat_count = Some 2, stat_variance = Some (Fin (25 / 4))\<rparr>"
  by (simp add: ex_band_def Band_new_def calculateStatistics_def Let_def js_eval)

lemma Monochrome_fillMissingValues_truthy:
  "truthy (opt_val (m_min s)) \<Longrightarrow> truthy (opt_val (m_max s)) \<Longrightarrow>
   Monochrome_fillMissingValues bands s = s"
  by (simp add: Monochrome_fillMissingValues_def Let_def split: option.splits)

lemma Pseudocolor_fillMissingValues_truthy:
  "truthy (opt_val (p_min s)) \<Longrightarrow> truthy (opt_val (p_max s)) \<Longrightarrow>
   Pseudocolor_fillMissingValues bands s = s"
  by (simp add: Pseudocolor_fillMissingValues_def Let_def split: option.splits)

text \<open>
  C8. \<open>fillMissingValues\<close> tests \<open>!this.getMin()\<close>, which holds for a minimum of 0 as it
  does for \<open>undefined\<close>: a style with \<open>min = 0\<close> and \<open>max = 255\<close>, both set, has its
  minimum replaced by the band's minimum 5 and its cached checksum dropped. The same
  happens in Pseudocolor, for \<open>min\<close> and for \<open>max\<close>.
\<close>

theorem fillMissingValues_overwrites_zero:
  "Monochrome_fillMissingValues [ex_band]
      \<lparr>m_min = Some (Fin 0), m_max = Some (Fin 255), m_band = Some 0, m_checksum = Some ''m0,0,255''\<rparr>
     = \<lparr>m_min = Some (Fin 5), m_max = Some (Fin 255), m_band = Some 0, m_checksum = None\<rparr>
   \<and> p_min (Pseudocolor_fillMissingValues [ex_band] (ex_pseudo\<lparr>p_min := Some (Fin 0)\<rparr>)) = Some (Fin 5)
   \<and> p_max (Pseudocolor_fillMissingValues [ex_band] (ex_pseudo\<lparr>p_max := Some (Fin 0)\<rparr>)) = Some (Fin 10)"
  by (simp add: Monochrome_fillMissingValues_def Pseudocolor_fillMissingValues_def ex_band_statistics
      Monochrome_setMin_def Monochrome_setMax_def Pseudocolor_setMin_def Pseudocolor_setMax_def
      ex_pseudo_def at_index_def opt_val_def Let_def)

section \<open>Checksums\<close>

lemma Pseudocolor_getChecksum_string:
  assumes "p_checksum p = None" and "p_band p = Some b" and "p_min p = Some v"
  shows "map_sum id fst (Pseudocolor_getChecksum S p) =
         Inr (Pseudocolor_checksum_breakpoints S (p_breakpoints p) (''p'' @ num_str S v))"
  using assms
  by (simp add: Pseudocolor_getChecksum_def Pseudocolor_checksum_operand_def string_defined_def Let_def)

text \<open>
  C2. Whatever the string functions are, the checksum of a Pseudocolor style is the
  same after its maximum, its band index, its mode, its start colour or its end colour
  is changed: the string is \<open>'p'\<close>, the minimum and the breakpoints. With an
  undefined minimum \<open>getChecksum\<close> throws.
\<close>

theorem Pseudocolor_checksum_ignores_parameters:
  "map_sum id fst (Pseudocolor_getChecksum S (ex_pseudo\<lparr>p_max := Some (Fin 100)\<rparr>))
     = map_sum id fst (Pseudocolor_getChecksum S ex_pseudo)
   \<and> map_sum id fst (Pseudocolor_getChecksum S (ex_pseudo\<lparr>p_band := Some 1\<rparr>))
     = map_sum id fst (Pseudocolor_getChecksum S ex_pseudo)
   \<and> map_sum id fst (Pseudocolor_getChecksum S (ex_pseudo\<lparr>p_mode := INTERPOLATE\<rparr>))
     = map_sum id fst (Pseudocolor_getChecksum S ex_pseudo)
   \<and> map_sum id fst (Pseudocolor_getChecksum S (ex_pseudo\<lparr>p_startColor := RGBA (Fin 9) (Fin 9) (Fin 9) (Fin 1)\<rparr>))
     = map_sum id fst (Pseudocolor_getChecksum S ex_pseudo)
   \<and> map_sum id fst (Pseudocolor_getChecksum S (ex_pseudo\<lparr>p_endColor := RGBA (Fin 9) (Fin 9) (Fin 9) (Fin 1)\<rparr>))
     = map_sum id fst (Pseudocolor_getChecksum S ex_pseudo)
   \<and> Pseudocolor_getChecksum S (ex_pseudo\<lparr>p_min := None\<rparr>) = Inl TypeError"
  by (simp add: Pseudocolor_getChecksum_def Pseudocolor_checksum_operand_def string_defined_def
      ex_pseudo_def Let_def)

section \<open>Statistics of a band\<close>
























section \<open>\<open>getStyledBand\<close> and bands the source does not have\<close>

lemma getStyledBand_missing_band:
  "m_band s = Some i \<Longrightarrow> length (cs_bands src) \<le> i \<Longrightarrow>
   getStyledBand al src (MonochromeStyle s) a b = Inl TypeError"
  "p_band p = Some i \<Longrightarrow> length (cs_bands src) \<le> i \<Longrightarrow>
   getStyledBand al src (PseudocolorStyle p) a b = Inl TypeError"
  by (simp_all add: getStyledBand_def at_index_def)

lemma getStyledBand_undefined_index:
  "m_band s = None \<Longrightarrow> getStyledBand al src (MonochromeStyle s) a b = Inr None"
  "p_band p = None \<Longrightarrow> getStyledBand al src (PseudocolorStyle p) a b = Inr None"
  by (simp_all add: getStyledBand_def)

text \<open>A source with the one band of two cells.\<close>

definition ex_source :: CoverageSource where
  "ex_source = \<lparr>cs_bands = [ex_band], cs_type = None, cs_pattern = None, cs_revision = 1,
                 cs_wrapX = True, cs_projection = ''EPSG:4326''\<rparr>"

text \<open>
  C5. Whatever \<open>alignRasterBands\<close> does, \<open>getStyledBand\<close> throws a TypeError when the
  style names a band the source does not have: a source without bands and the default
  band index 0; band index 3 of a source with one band, for Monochrome and for
  Pseudocolor; an RGB style whose green channel names band 1 of a source with one band.
  It returns \<open>null\<close> only when the band index of a single-band style is \<open>undefined\<close>.
\<close>

theorem getStyledBand_throws_on_missing_band:
  "getStyledBand al (ex_source\<lparr>cs_bands := []\<rparr>) (MonochromeStyle ex_mono) (Fin 255) (Fin 0)
     = Inl TypeError
   \<and> getStyledBand al ex_source (MonochromeStyle (ex_mono\<lparr>m_band := Some 3\<rparr>)) (Fin 255) (Fin 0)
     = Inl TypeError
   \<and> getStyledBand al ex_source (PseudocolorStyle (ex_pseudo\<lparr>p_band := Some 3\<rparr>)) (Fin 255) (Fin 0)
     = Inl TypeError
   \<and> getStyledBand al ex_source (RGBStyle ex_rgb) (Fin 255) (Fin 0) = Inl TypeError
   \<and> getStyledBand al ex_source (MonochromeStyle (ex_mono\<lparr>m_band := None\<rparr>)) (Fin 255) (Fin 0)
     = Inr None"
  by (simp add: getStyledBand_def ex_source_def ex_defs at_index_def RGB_getBandIndex_def)

section \<open>Hit detection, one feature at a time\<close>

text \<open>The features a sequence of calls adds to the batch, in drawing order.\<close>

fun drawn :: "'c DrawCall \<Rightarrow> Feature list" where
  "drawn (SetFillStrokeStyle c) = []"
| "drawn (DrawPolygon pg f) = (if pg_hasEnds pg \<and> pg_hasOuterRing pg then [f] else [])"
| "drawn (DrawMultiPolygon pgs f) = (if drawMultiPolygon_loop pgs 0 > 0 then [f] else [])"

subsection \<open>The scan the hit detection amounts to\<close>







fun exit_visits :: "('r, 'c) WhileExit \<Rightarrow> 'c Visit list" where
  "exit_visits (Return r visits) = visits"
| "exit_visits (Exit k e visits) = visits"












lemma drawMultiPolygon_loop_shift: "drawMultiPolygon_loop pgs n = n + drawMultiPolygon_loop pgs 0"
proof (induction pgs arbitrary: n)
  case Nil
  then show ?case by simp
next
  case (Cons pg pgs)
  show ?case using Cons[of "n + pg_numIndices pg"] Cons[of "pg_numIndices pg"] Cons[of n] by simp
qed

lemma draw_call_features:
  "pr_startIndicesFeature (draw_call rp c) = pr_startIndicesFeature rp @ drawn c"
proof (cases c)
  case (SetFillStrokeStyle x)
  then show ?thesis by (simp add: setFillStrokeStyle_def)
next
  case (DrawPolygon pg f)
  then show ?thesis by (simp add: drawPolygon_def Let_def)
next
  case (DrawMultiPolygon pgs f)
  then show ?thesis
    using drawMultiPolygon_loop_shift[of pgs "pr_indices rp"]
    by (simp add: drawMultiPolygon_def Let_def)
qed

lemma foldl_draw_call_features:
  "pr_startIndicesFeature (foldl draw_call rp calls) = pr_startIndicesFeature rp @ concat (map drawn calls)"
  by (induction calls arbitrary: rp) (simp_all add: draw_call_features)

lemma accumulate_features:
  "pr_startIndicesFeature (accumulate calls) = concat (map drawn calls)"
  by (simp add: accumulate_def finish_def Let_def foldl_draw_call_features PolygonReplay_new_def)









section \<open>Frames that reuse the cached batch\<close>

lemma frame_style_defined:
  "Style_getChecksum S style0 = Inr (c, style1) \<Longrightarrow> \<exists>style. frame_style S rn src style0 = Inr style"
  by (simp add: frame_style_def)

lemma Canvas_prepareFrame_reuse:
  assumes "cl_style layer = Some style0"
    and "Style_getChecksum (co_strings co) style0 = Inr cs"
    and "rn_renderedResolution rn = Some (fs_resolution frame)"
    and "rn_renderedRevision rn = Some (cl_revision layer)"
    and "rn_renderedExtent rn = Some renderedExtent"
    and "containsExtent renderedExtent (wrapped_extent (cl_source layer) frame)"
  shows "\<exists>out. Canvas_prepareFrame co rn layer frame = Inr out \<and> oc_result out \<and> oc_calls out = []
         \<and> oc_postRender out = []
         \<and> (oc_renderer out = rn \<or> oc_renderer out = rn\<lparr>rn_replayGroupChanged := False\<rparr>)"
proof -
  obtain style where st: "frame_style (co_strings co) rn (cl_source layer) style0 = Inr style"
    using assms(2) frame_style_defined[of "co_strings co" style0 "fst cs" "snd cs"] by auto
  have re: "batch_reusable rn (fs_resolution frame) (cl_revision layer)
      (wrapped_extent (cl_source layer) frame) = Inr True"
    using assms(3-6) by (simp add: batch_reusable_def)
  show ?thesis
    using assms(1) st re by (simp add: Canvas_prepareFrame_def Let_def)
qed

lemma WebGL_prepareFrame_reuse:
  assumes "cl_style layer = Some style0"
    and "Style_getChecksum (co_strings co) style0 = Inr cs"
    and "rn_renderedResolution rn = Some (fs_resolution frame)"
    and "rn_renderedRevision rn = Some (cl_revision layer)"
    and "rn_renderedExtent rn = Some renderedExtent"
    and "containsExtent renderedExtent (fs_extent frame)"
  shows "\<exists>out. WebGL_prepareFrame co rn layer frame = Inr out \<and> oc_result out \<and> oc_calls out = []
         \<and> oc_postRender out = []
         \<and> (oc_renderer out = rn \<or> oc_renderer out = rn\<lparr>rn_replayGroupChanged := False\<rparr>)"
proof -
  obtain style where st: "frame_style (co_strings co) rn (cl_source layer) style0 = Inr style"
    using assms(2) frame_style_defined[of "co_strings co" style0 "fst cs" "snd cs"] by auto
  have re: "batch_reusable rn (fs_resolution frame) (cl_revision layer) (fs_extent frame) = Inr True"
    using assms(3-6) by (simp add: batch_reusable_def)
  show ?thesis
    using assms(1) st re by (simp add: WebGL_prepareFrame_def Let_def)
qed


lemma Canvas_refresh_calls:
  "Canvas_refresh co rn src pj ty st = Inr (ok, rn', st', calls) \<Longrightarrow> NewReplayGroup \<notin> set calls"
  by (auto simp: Canvas_refresh_def Let_def split: sum.splits option.splits prod.splits if_splits)

lemma WebGL_refresh_calls:
  "WebGL_refresh co rn src pj ty st = Inr (ok, rn', st', calls) \<Longrightarrow> NewReplayGroup \<notin> set calls"
  by (auto simp: WebGL_refresh_def Let_def split: sum.splits option.splits prod.splits if_splits)

lemma Canvas_replay_rendered:
  "Canvas_replay co rn layer frame extent ty = Inr (res, rn', calls) \<Longrightarrow> NewReplayGroup \<in> set calls \<Longrightarrow>
   res \<and> rn_renderedResolution rn' = Some (fs_resolution frame)
   \<and> rn_renderedRevision rn' = Some (cl_revision layer) \<and> rn_renderedExtent rn' = Some extent"
  by (auto simp: Canvas_replay_def Let_def split: option.splits if_splits)

lemma WebGL_replay_rendered:
  "WebGL_replay co rn layer frame extent = Inr (res, rn', post, calls) \<Longrightarrow> NewReplayGroup \<in> set calls \<Longrightarrow>
   res \<and> rn_renderedResolution rn' = Some (fs_resolution frame)
   \<and> rn_renderedRevision rn' = Some (cl_revision layer) \<and> rn_renderedExtent rn' = Some extent"
  by (auto simp: WebGL_replay_def Let_def split: option.splits if_splits)

lemma Canvas_prepareFrame_rendered:
  assumes "Canvas_prepareFrame co rn layer frame = Inr out" and "NewReplayGroup \<in> set (oc_calls out)"
  shows "oc_result out \<and> rn_renderedResolution (oc_renderer out) = Some (fs_resolution frame)
   \<and> rn_renderedRevision (oc_renderer out) = Some (cl_revision layer)
   \<and> rn_renderedExtent (oc_renderer out) = Some (oc_extent out)
   \<and> oc_extent out = wrapped_extent (cl_source layer) frame"
  using assms
  by (auto simp: Canvas_prepareFrame_def Let_def
      split: option.splits sum.splits bool.splits prod.splits if_splits
      dest: Canvas_refresh_calls Canvas_replay_rendered)

lemma WebGL_prepareFrame_rendered:
  assumes "WebGL_prepareFrame co rn layer frame = Inr out" and "NewReplayGroup \<in> set (oc_calls out)"
  shows "oc_result out \<and> rn_renderedResolution (oc_renderer out) = Some (fs_resolution frame)
   \<and> rn_renderedRevision (oc_renderer out) = Some (cl_revision layer)
   \<and> rn_renderedExtent (oc_renderer out) = Some (oc_extent out)
   \<and> oc_extent out = fs_extent frame"
  using assms
  by (auto simp: WebGL_prepareFrame_def Let_def
      split: option.splits sum.splits bool.splits prod.splits if_splits
      dest: WebGL_refresh_calls WebGL_replay_rendered)


text \<open>
  C3. Let the layer have a style whose checksum can be computed, and let
  the resolution and the revision the renderer has cached be the resolution of the view
  and the revision of the layer. If the cached rendered extent contains the extent of
  the frame, taken for the canvas renderer after it has widened the extent for a
  wrapped world, then \<open>prepareFrame\<close> returns \<open>true\<close>, calls neither \<open>getStyledBand\<close> nor
  \<open>createGrid\<close>, builds no replay group and schedules no deletion, and leaves every
  field of the renderer as it was, but for \<open>replayGroupChanged\<close>. The canvas renderer
  leaves the extent as it is unless the source wraps the world, the projection can wrap
  and the projection extent does not contain the extent. The cached resolution,
  revision and extent are those of the last frame that built a replay group.
\<close>

theorem cached_batch_reused:
  "(cl_style layer = Some sty \<and> Style_getChecksum (co_strings co) sty = Inr cs
    \<and> rn_renderedResolution rn = Some (fs_resolution frame)
    \<and> rn_renderedRevision rn = Some (cl_revision layer)
    \<and> rn_renderedExtent rn = Some renderedExtent \<longrightarrow>
      (containsExtent renderedExtent (wrapped_extent (cl_source layer) frame) \<longrightarrow>
         (\<exists>out. Canvas_prepareFrame co rn layer frame = Inr out \<and> oc_result out \<and> oc_calls out = []
            \<and> oc_postRender out = []
            \<and> (oc_renderer out = rn \<or> oc_renderer out = rn\<lparr>rn_replayGroupChanged := False\<rparr>)))
      \<and> (containsExtent renderedExtent (fs_extent frame) \<longrightarrow>
         (\<exists>out. WebGL_prepareFrame co rn layer frame = Inr out \<and> oc_result out \<and> oc_calls out = []
            \<and> oc_postRender out = []
            \<and> (oc_renderer out = rn \<or> oc_renderer out = rn\<lparr>rn_replayGroupChanged := False\<rparr>))))
   \<and> (\<not> cs_wrapX (cl_source layer) \<or> \<not> pj_canWrapX (fs_projection frame)
       \<or> containsExtent (pj_extent (fs_projection frame)) (fs_extent frame) \<longrightarrow>
         wrapped_extent (cl_source layer) frame = fs_extent frame)
   \<and> (Canvas_prepareFrame co rn layer frame = Inr outc \<and> NewReplayGroup \<in> set (oc_calls outc) \<longrightarrow>
         oc_result outc \<and> rn_renderedResolution (oc_renderer outc) = Some (fs_resolution frame)
         \<and> rn_renderedRevision (oc_renderer outc) = Some (cl_revision layer)
         \<and> rn_renderedExtent (oc_renderer outc) = Some (wrapped_extent (cl_source layer) frame))
   \<and> (WebGL_prepareFrame co rn layer frame = Inr outw \<and> NewReplayGroup \<in> set (oc_calls outw) \<longrightarrow>
         oc_result outw \<and> rn_renderedResolution (oc_renderer outw) = Some (fs_resolution frame)
         \<and> rn_renderedRevision (oc_renderer outw) = Some (cl_revision layer)
         \<and> rn_renderedExtent (oc_renderer outw) = Some (fs_extent frame))"
proof (intro conjI impI)
  assume h: "cl_style layer = Some sty \<and> Style_getChecksum (co_strings co) sty = Inr cs
    \<and> rn_renderedResolution rn = Some (fs_resolution frame)
    \<and> rn_renderedRevision rn = Some (cl_revision layer)
    \<and> rn_renderedExtent rn = Some renderedExtent"
  { assume "containsExtent renderedExtent (wrapped_extent (cl_source layer) frame)"
    then show "\<exists>out. Canvas_prepareFrame co rn layer frame = Inr out \<and> oc_result out \<and> oc_calls out = []
            \<and> oc_postRender out = []
            \<and> (oc_renderer out = rn \<or> oc_renderer out = rn\<lparr>rn_replayGroupChanged := False\<rparr>)"
      using h Canvas_prepareFrame_reuse[of layer sty co cs rn frame renderedExtent] by blast }
  { assume "containsExtent renderedExtent (fs_extent frame)"
    then show "\<exists>out. WebGL_prepareFrame co rn layer frame = Inr out \<and> oc_result out \<and> oc_calls out = []
            \<and> oc_postRender out = []
            \<and> (oc_renderer out = rn \<or> oc_renderer out = rn\<lparr>rn_replayGroupChanged := False\<rparr>)"
      using h WebGL_prepareFrame_reuse[of layer sty co cs rn frame renderedExtent] by blast }
next
  assume "\<not> cs_wrapX (cl_source layer) \<or> \<not> pj_canWrapX (fs_projection frame)
       \<or> containsExtent (pj_extent (fs_projection frame)) (fs_extent frame)"
  then show "wrapped_extent (cl_source layer) frame = fs_extent frame"
    by (auto simp: wrapped_extent_def Let_def)
next
  assume a: "Canvas_prepareFrame co rn layer frame = Inr outc \<and> NewReplayGroup \<in> set (oc_calls outc)"
  note r = Canvas_prepareFrame_rendered[of co rn layer frame outc]
  show "oc_result outc" using a r by blast
  show "rn_renderedResolution (oc_renderer outc) = Some (fs_resolution frame)" using a r by blast
  show "rn_renderedRevision (oc_renderer outc) = Some (cl_revision layer)" using a r by blast
  show "rn_renderedExtent (oc_renderer outc) = Some (wrapped_extent (cl_source layer) frame)"
    using a r by simp
next
  assume a: "WebGL_prepareFrame co rn layer frame = Inr outw \<and> NewReplayGroup \<in> set (oc_calls outw)"
  note r = WebGL_prepareFrame_rendered[of co rn layer frame outw]
  show "oc_result outw" using a r by blast
  show "rn_renderedResolution (oc_renderer outw) = Some (fs_resolution frame)" using a r by blast
  show "rn_renderedRevision (oc_renderer outw) = Some (cl_revision layer)" using a r by blast
  show "rn_renderedExtent (oc_renderer outw) = Some (fs_extent frame)" using a r by simp
qed


subsection \<open>Two frames of a layer that wraps the world\<close>

text \<open>
  Collaborators for the examples: the spatial index is a number, a replay group is
  the extent it was built for, and every query of the index finds a cell.
\<close>

definition ex_co :: "(nat, Extent) Collaborators" where
  "ex_co = \<lparr>co_strings = \<lparr>num_str = (\<lambda>x. ''n''), col_str = (\<lambda>c. ''c''), asString = (\<lambda>c. ''c'')\<rparr>,
     co_alignRasterBands = (\<lambda>bands type. \<lparr>al_matrices = [], al_extent = (0, 0, 0, 0),
        al_origin = (0, 0), al_stride = 0, al_resolution = (1, 1)\<rparr>),
     co_equivalent = (\<lambda>a b. a = b),
     co_getTolerance = (\<lambda>resolution pixelRatio. resolution / pixelRatio),
     co_createGrid = (\<lambda>band cell type sourceProjection projection pattern. 0),
     co_getInExtent = (\<lambda>rtree extent stride. [0]),
     co_canvasReplayGroup = (\<lambda>tolerance extent resolution pixelRatio flat vertices stroke. extent),
     co_webglReplayGroup = (\<lambda>tolerance extent flat vertices indices. extent),
     co_tessellate = (\<lambda>shape. (shape, []))\<rparr>"

definition ex_layer :: CoverageLayer where
  "ex_layer = \<lparr>cl_source = ex_source, cl_style = Some (MonochromeStyle ex_mono), cl_stroke = None,
     cl_updateWhileAnimating = False, cl_updateWhileInteracting = False, cl_revision = 7\<rparr>"

definition ex_frame :: "Extent \<Rightarrow> FrameState" where
  "ex_frame extent = \<lparr>fs_extent = extent,
     fs_projection = \<lparr>pj_code = ''EPSG:4326'', pj_canWrapX = True, pj_extent = (- 180, - 90, 180, 90)\<rparr>,
     fs_resolution = 1, fs_pixelRatio = 1, fs_animating = 0, fs_interacting = 0\<rparr>"

text \<open>The renderer before its first frame, and after a frame of the extent
  \<open>[-200, -10, -100, 10]\<close>, which is widened to \<open>[-540, -10, 540, 10]\<close>.\<close>

definition ex_renderer0 :: "(nat, Extent) Renderer" where
  "ex_renderer0 = \<lparr>rn_renderedChecksum = None, rn_renderedSourceRevision = None, rn_buffer = None,
     rn_coverageCache = None, rn_numVertices = None, rn_indices = [],
     rn_renderedResolution = None, rn_renderedRevision = None, rn_renderedExtent = None,
     rn_replayGroup = None, rn_replayGroupChanged = False\<rparr>"

definition ex_renderer1 :: "(nat, Extent) Renderer" where
  "ex_renderer1 = \<lparr>rn_renderedChecksum = Some ''mn,n,n'', rn_renderedSourceRevision = Some 1,
     rn_buffer = Some 1, rn_coverageCache = Some 0, rn_numVertices = Some 8, rn_indices = [],
     rn_renderedResolution = Some 1, rn_renderedRevision = Some 7,
     rn_renderedExtent = Some (- 540, - 10, 540, 10),
     rn_replayGroup = Some (- 540, - 10, 540, 10), rn_replayGroupChanged = True\<rparr>"

definition ex_style1 :: Style where
  "ex_style1 = MonochromeStyle (ex_mono\<lparr>m_checksum := Some ''mn,n,n''\<rparr>)"

lemma Band_new_resolution: "b_resolution (Band_new options) = o_resolution options"
  by (simp add: Band_new_def calculateStatistics_def Let_def split: prod.splits)

lemma ex_band_resolution: "b_resolution ex_band = (1, 1)"
  by (simp add: ex_band_def Band_new_resolution)

lemmas ex_frame_defs =
  ex_co_def ex_layer_def ex_frame_def ex_source_def ex_mono_def ex_style1_def
  frame_style_def update_paused_def wrapped_extent_def batch_reusable_def
  Monochrome_getChecksum_def Monochrome_fillMissingValues_def

lemma ex_first_frame_webgl:
  "WebGL_prepareFrame ex_co ex_renderer0 ex_layer (ex_frame (- 200, - 10, - 100, 10)) =
     Inr \<lparr>oc_result = True,
          oc_renderer = ex_renderer1\<lparr>rn_indices := [0, 1, 2, 2, 3, 0],
                                      rn_renderedExtent := Some (- 200, - 10, - 100, 10),
                                      rn_replayGroup := Some (- 200, - 10, - 100, 10),
                                      rn_replayGroupChanged := False\<rparr>,
          oc_style = Some ex_style1, oc_extent = (- 200, - 10, - 100, 10), oc_postRender = [],
          oc_calls = [GetStyledBand, CreateGrid, NewReplayGroup]\<rparr>"
  by (simp add: WebGL_prepareFrame_def WebGL_refresh_def WebGL_replay_def ex_frame_defs
      ex_renderer0_def ex_renderer1_def getStyledBand_def styled_band_def Band_new_resolution
      ex_band_resolution ex_band_statistics WebGL_getCellCoordinates_def at_index_def opt_val_def
      Let_def)

lemma ex_first_frame:
  "Canvas_prepareFrame ex_co ex_renderer0 ex_layer (ex_frame (- 200, - 10, - 100, 10)) =
     Inr \<lparr>oc_result = True, oc_renderer = ex_renderer1, oc_style = Some ex_style1,
          oc_extent = (- 540, - 10, 540, 10), oc_postRender = [],
          oc_calls = [GetStyledBand, CreateGrid, NewReplayGroup]\<rparr>"
  by (simp add: Canvas_prepareFrame_def Canvas_refresh_def Canvas_replay_def ex_frame_defs
      ex_renderer0_def ex_renderer1_def getStyledBand_def styled_band_def Band_new_resolution
      ex_band_resolution ex_band_statistics Canvas_getCellCoordinates_def at_index_def opt_val_def
      Let_def)

text \<open>
  A second frame of the same resolution and revision, whose extent
  \<open>[-500, -10, 500, 10]\<close> lies in the rendered extent \<open>[-540, -10, 540, 10]\<close> of the first:
  the canvas renderer widens the extent to \<open>[-680, -10, 680, 10]\<close>, which the rendered
  extent does not contain, and replaces the cached replay group.
\<close>

theorem widened_frame_rebuilds_counterexample:
  "Canvas_prepareFrame ex_co ex_renderer0 ex_layer (ex_frame (- 200, - 10, - 100, 10)) =
     Inr \<lparr>oc_result = True, oc_renderer = ex_renderer1, oc_style = Some ex_style1,
          oc_extent = (- 540, - 10, 540, 10), oc_postRender = [],
          oc_calls = [GetStyledBand, CreateGrid, NewReplayGroup]\<rparr>
   \<and> rn_renderedResolution ex_renderer1 = Some (fs_resolution (ex_frame (- 500, - 10, 500, 10)))
   \<and> rn_renderedRevision ex_renderer1 = Some (cl_revision ex_layer)
   \<and> rn_renderedExtent ex_renderer1 = Some (- 540, - 10, 540, 10)
   \<and> containsExtent (- 540, - 10, 540, 10) (fs_extent (ex_frame (- 500, - 10, 500, 10)))
   \<and> Canvas_prepareFrame ex_co ex_renderer1 (ex_layer\<lparr>cl_style := Some ex_style1\<rparr>)
        (ex_frame (- 500, - 10, 500, 10)) =
       Inr \<lparr>oc_result = True,
            oc_renderer = ex_renderer1\<lparr>rn_renderedExtent := Some (- 680, - 10, 680, 10),
                                        rn_replayGroup := Some (- 680, - 10, 680, 10)\<rparr>,
            oc_style = Some ex_style1, oc_extent = (- 680, - 10, 680, 10), oc_postRender = [],
            oc_calls = [NewReplayGroup]\<rparr>
   \<and> rn_replayGroup (ex_renderer1\<lparr>rn_renderedExtent := Some (- 680, - 10, 680, 10),
                                    rn_replayGroup := Some (- 680, - 10, 680, 10)\<rparr>)
       \<noteq> rn_replayGroup ex_renderer1"
  using ex_first_frame
  by (simp add: Canvas_prepareFrame_def Canvas_refresh_def Canvas_replay_def ex_frame_defs
      ex_renderer1_def Let_def)

theorem cached_batch_reused_witness:
  "cl_style (ex_layer\<lparr>cl_style := Some ex_style1\<rparr>) = Some ex_style1
   \<and> Style_getChecksum (co_strings ex_co) ex_style1 = Inr (''mn,n,n'', ex_style1)
   \<and> rn_renderedResolution ex_renderer1 = Some (fs_resolution (ex_frame (- 100, - 5, 100, 5)))
   \<and> rn_renderedRevision ex_renderer1 = Some (cl_revision ex_layer)
   \<and> rn_renderedExtent ex_renderer1 = Some (- 540, - 10, 540, 10)
   \<and> containsExtent (- 540, - 10, 540, 10) (fs_extent (ex_frame (- 100, - 5, 100, 5)))
   \<and> wrapped_extent ex_source (ex_frame (- 100, - 5, 100, 5)) = (- 100, - 5, 100, 5)
   \<and> (\<exists>out. Canvas_prepareFrame ex_co ex_renderer1 (ex_layer\<lparr>cl_style := Some ex_style1\<rparr>)
               (ex_frame (- 100, - 5, 100, 5)) = Inr out
           \<and> oc_result out \<and> oc_calls out = []
           \<and> rn_replayGroup (oc_renderer out) = Some (- 540, - 10, 540, 10)
           \<and> rn_coverageCache (oc_renderer out) = Some 0)
   \<and> (\<exists>out. WebGL_prepareFrame ex_co ex_renderer1 (ex_layer\<lparr>cl_style := Some ex_style1\<rparr>)
               (ex_frame (- 100, - 5, 100, 5)) = Inr out
           \<and> oc_result out \<and> oc_calls out = []
           \<and> rn_replayGroup (oc_renderer out) = Some (- 540, - 10, 540, 10)
           \<and> rn_coverageCache (oc_renderer out) = Some 0)
   \<and> (\<exists>out. Canvas_prepareFrame ex_co ex_renderer0 ex_layer (ex_frame (- 200, - 10, - 100, 10)) = Inr out
           \<and> NewReplayGroup \<in> set (oc_calls out)
           \<and> rn_renderedResolution (oc_renderer out) = Some 1
           \<and> rn_renderedRevision (oc_renderer out) = Some 7
           \<and> rn_renderedExtent (oc_renderer out) = Some (- 540, - 10, 540, 10))
   \<and> (\<exists>out. WebGL_prepareFrame ex_co ex_renderer0 ex_layer (ex_frame (- 200, - 10, - 100, 10)) = Inr out
           \<and> NewReplayGroup \<in> set (oc_calls out)
           \<and> rn_renderedResolution (oc_renderer out) = Some 1
           \<and> rn_renderedRevision (oc_renderer out) = Some 7
           \<and> rn_renderedExtent (oc_renderer out) = Some (- 200, - 10, - 100, 10))"
proof -
  let ?layer = "ex_layer\<lparr>cl_style := Some ex_style1\<rparr>"
  let ?first = "ex_frame (- 200, - 10, - 100, 10)"
  note u = cached_batch_reused[where layer = ex_layer and frame = ?first and rn = ex_renderer0
      and co = ex_co]
  have wf: "wrapped_extent (cl_source ex_layer) ?first = (- 540, - 10, 540, 10)"
    by (simp add: wrapped_extent_def ex_frame_def ex_layer_def ex_source_def)
  have f1: "\<exists>out. Canvas_prepareFrame ex_co ex_renderer0 ex_layer ?first = Inr out
           \<and> NewReplayGroup \<in> set (oc_calls out)
           \<and> rn_renderedResolution (oc_renderer out) = Some 1
           \<and> rn_renderedRevision (oc_renderer out) = Some 7
           \<and> rn_renderedExtent (oc_renderer out) = Some (- 540, - 10, 540, 10)"
  proof -
    let ?o = "\<lparr>oc_result = True, oc_renderer = ex_renderer1, oc_style = Some ex_style1,
          oc_extent = (- 540, - 10, 540, 10), oc_postRender = [],
          oc_calls = [GetStyledBand, CreateGrid, NewReplayGroup]\<rparr>"
    have a: "Canvas_prepareFrame ex_co ex_renderer0 ex_layer ?first = Inr ?o
        \<and> NewReplayGroup \<in> set (oc_calls ?o)"
      using ex_first_frame by simp
    then have "rn_renderedResolution (oc_renderer ?o) = Some (fs_resolution ?first)
        \<and> rn_renderedRevision (oc_renderer ?o) = Some (cl_revision ex_layer)
        \<and> rn_renderedExtent (oc_renderer ?o) = Some (wrapped_extent (cl_source ex_layer) ?first)"
      using u[where outc = ?o] by blast
    then show ?thesis using a unfolding wf by (intro exI[of _ ?o]) (simp add: ex_frame_def ex_layer_def)
  qed
  have f2: "\<exists>out. WebGL_prepareFrame ex_co ex_renderer0 ex_layer ?first = Inr out
           \<and> NewReplayGroup \<in> set (oc_calls out)
           \<and> rn_renderedResolution (oc_renderer out) = Some 1
           \<and> rn_renderedRevision (oc_renderer out) = Some 7
           \<and> rn_renderedExtent (oc_renderer out) = Some (- 200, - 10, - 100, 10)"
  proof -
    let ?o = "\<lparr>oc_result = True,
          oc_renderer = ex_renderer1\<lparr>rn_indices := [0, 1, 2, 2, 3, 0],
                                      rn_renderedExtent := Some (- 200, - 10, - 100, 10),
                                      rn_replayGroup := Some (- 200, - 10, - 100, 10),
                                      rn_replayGroupChanged := False\<rparr>,
          oc_style = Some ex_style1, oc_extent = (- 200, - 10, - 100, 10), oc_postRender = [],
          oc_calls = [GetStyledBand, CreateGrid, NewReplayGroup]\<rparr>"
    have a: "WebGL_prepareFrame ex_co ex_renderer0 ex_layer ?first = Inr ?o
        \<and> NewReplayGroup \<in> set (oc_calls ?o)"
      using ex_first_frame_webgl by simp
    then have "rn_renderedResolution (oc_renderer ?o) = Some (fs_resolution ?first)
        \<and> rn_renderedRevision (oc_renderer ?o) = Some (cl_revision ex_layer)
        \<and> rn_renderedExtent (oc_renderer ?o) = Some (fs_extent ?first)"
      using u[where outw = ?o] by blast
    then show ?thesis using a by (intro exI[of _ ?o]) (simp add: ex_frame_def ex_layer_def)
  qed
  let ?frame = "ex_frame (- 100, - 5, 100, 5)"
  note t = cached_batch_reused[where layer = ?layer and frame = ?frame and rn = ex_renderer1
      and co = ex_co and sty = ex_style1 and cs = "(''mn,n,n'', ex_style1)"
      and renderedExtent = "(- 540, - 10, 540, 10)"]
  have h1: "cl_style ?layer = Some ex_style1" by simp
  have h2: "Style_getChecksum (co_strings ex_co) ex_style1 = Inr (''mn,n,n'', ex_style1)"
    by (simp add: ex_style1_def ex_co_def Monochrome_getChecksum_def)
  have h3: "rn_renderedResolution ex_renderer1 = Some (fs_resolution ?frame)"
    and h4: "rn_renderedRevision ex_renderer1 = Some (cl_revision ?layer)"
    and h5: "rn_renderedExtent ex_renderer1 = Some (- 540, - 10, 540, 10)"
    by (simp_all add: ex_renderer1_def ex_frame_def ex_layer_def)
  have w: "wrapped_extent (cl_source ?layer) ?frame = (- 100, - 5, 100, 5)"
    by (simp add: wrapped_extent_def ex_frame_def ex_layer_def ex_source_def)
  have c1: "containsExtent (- 540, - 10, 540, 10) (wrapped_extent (cl_source ?layer) ?frame)"
    unfolding w by simp
  have c2: "containsExtent (- 540, - 10, 540, 10) (fs_extent ?frame)"
    by (simp add: ex_frame_def)
  have canvas: "\<exists>out. Canvas_prepareFrame ex_co ex_renderer1 ?layer ?frame = Inr out
      \<and> oc_result out \<and> oc_calls out = [] \<and> oc_postRender out = []
      \<and> (oc_renderer out = ex_renderer1 \<or> oc_renderer out = ex_renderer1\<lparr>rn_replayGroupChanged := False\<rparr>)"
    using t h1 h2 h3 h4 h5 c1 by blast
  have webgl: "\<exists>out. WebGL_prepareFrame ex_co ex_renderer1 ?layer ?frame = Inr out
      \<and> oc_result out \<and> oc_calls out = [] \<and> oc_postRender out = []
      \<and> (oc_renderer out = ex_renderer1 \<or> oc_renderer out = ex_renderer1\<lparr>rn_replayGroupChanged := False\<rparr>)"
    using t h1 h2 h3 h4 h5 c2 by blast
  have g: "rn_replayGroup r = Some (- 540, - 10, 540, 10) \<and> rn_coverageCache r = Some 0"
    if "r = ex_renderer1 \<or> r = ex_renderer1\<lparr>rn_replayGroupChanged := False\<rparr>" for r
    using that by (auto simp: ex_renderer1_def)
  have w': "wrapped_extent ex_source ?frame = (- 100, - 5, 100, 5)"
    using w by (simp add: ex_layer_def)
  have h4': "rn_renderedRevision ex_renderer1 = Some (cl_revision ex_layer)" using h4 by simp
  from canvas obtain o1 where o1: "Canvas_prepareFrame ex_co ex_renderer1 ?layer ?frame = Inr o1
      \<and> oc_result o1 \<and> oc_calls o1 = []
      \<and> (oc_renderer o1 = ex_renderer1 \<or> oc_renderer o1 = ex_renderer1\<lparr>rn_replayGroupChanged := False\<rparr>)"
    by blast
  from webgl obtain o2 where o2: "WebGL_prepareFrame ex_co ex_renderer1 ?layer ?frame = Inr o2
      \<and> oc_result o2 \<and> oc_calls o2 = []
      \<and> (oc_renderer o2 = ex_renderer1 \<or> oc_renderer o2 = ex_renderer1\<lparr>rn_replayGroupChanged := False\<rparr>)"
    by blast
  have e1: "\<exists>out. Canvas_prepareFrame ex_co ex_renderer1 ?layer ?frame = Inr out
           \<and> oc_result out \<and> oc_calls out = []
           \<and> rn_replayGroup (oc_renderer out) = Some (- 540, - 10, 540, 10)
           \<and> rn_coverageCache (oc_renderer out) = Some 0"
    using o1 g[of "oc_renderer o1"] by blast
  have e2: "\<exists>out. WebGL_prepareFrame ex_co ex_renderer1 ?layer ?frame = Inr out
           \<and> oc_result out \<and> oc_calls out = []
           \<and> rn_replayGroup (oc_renderer out) = Some (- 540, - 10, 540, 10)
           \<and> rn_coverageCache (oc_renderer out) = Some 0"
    using o2 g[of "oc_renderer o2"] by blast
  show ?thesis using h1 h2 h3 h4' h5 c2 w' e1 e2 f1 f2 by blast
qed

end
